theory Spec2Isabelle
  imports Complex_Main
begin

section \<open>Data contracts (types/narrative.ts, types/character.ts)\<close>

text \<open>
  The numbers of the relationship graph and of the line deltas are JavaScript numbers with
  their special values (\<open>jsnum\<close> below); counters are integers, and quantities the code
  computes from lengths and constants are reals.  Rounding is not modelled.  JavaScript
  strings are \<open>string\<close>.  Clock readings and generated identifiers (\<open>Date.now()\<close>,
  \<open>uuidv4()\<close>) and the console output carry no behaviour and are left out of the records.
\<close>

datatype Act = Act1 | Act2 | Act3 | Act4 | Act5

fun act_num :: "Act \<Rightarrow> nat" where
  "act_num Act1 = 1"
| "act_num Act2 = 2"
| "act_num Act3 = 3"
| "act_num Act4 = 4"
| "act_num Act5 = 5"

datatype CheckpointType = mutual_spark | explicit_conflict | need_boundary | relational_choice

datatype NudgeType = RaiseStakes | Comfort | Vulnerability | Recall | Aside | TempoUp | TempoDown

datatype NudgeIntensity = Minor | Major

datatype NudgeSource = Observer | Auto | Evaluator

datatype EndReason = EndCheckpoint | EndPlateau | EndWrap

subsection \<open>JavaScript numbers\<close>

text \<open>
  A JavaScript number is \<open>NaN\<close>, an infinity or a finite value.  The operations are those
  of the language on these values: \<open>NaN\<close> is contagious in arithmetic, in \<open>Math.max\<close>,
  \<open>Math.min\<close> and \<open>Math.abs\<close>, and every comparison with \<open>NaN\<close> is false.  Finite
  values are taken exact, and the sign of zero is not tracked.
\<close>

datatype jsnum = NaN | NegInf | Fin real | PosInf

fun jneg :: "jsnum \<Rightarrow> jsnum" where
  "jneg NaN = NaN"
| "jneg NegInf = PosInf"
| "jneg (Fin a) = Fin (- a)"
| "jneg PosInf = NegInf"

fun jadd :: "jsnum \<Rightarrow> jsnum \<Rightarrow> jsnum" where
  "jadd NaN y = NaN"
| "jadd x NaN = NaN"
| "jadd (Fin a) (Fin b) = Fin (a + b)"
| "jadd PosInf NegInf = NaN"
| "jadd NegInf PosInf = NaN"
| "jadd PosInf y = PosInf"
| "jadd x PosInf = PosInf"
| "jadd NegInf y = NegInf"
| "jadd x NegInf = NegInf"

fun jsub :: "jsnum \<Rightarrow> jsnum \<Rightarrow> jsnum" where
  "jsub x y = jadd x (jneg y)"

fun jmul :: "jsnum \<Rightarrow> jsnum \<Rightarrow> jsnum" where
  "jmul NaN y = NaN"
| "jmul x NaN = NaN"
| "jmul (Fin a) (Fin b) = Fin (a * b)"
| "jmul (Fin a) PosInf = (if a = 0 then NaN else if 0 < a then PosInf else NegInf)"
| "jmul (Fin a) NegInf = (if a = 0 then NaN else if 0 < a then NegInf else PosInf)"
| "jmul PosInf (Fin b) = (if b = 0 then NaN else if 0 < b then PosInf else NegInf)"
| "jmul NegInf (Fin b) = (if b = 0 then NaN else if 0 < b then NegInf else PosInf)"
| "jmul PosInf PosInf = PosInf"
| "jmul PosInf NegInf = NegInf"
| "jmul NegInf PosInf = NegInf"
| "jmul NegInf NegInf = PosInf"

text \<open>Division by a positive finite value, the only divisor the modelled code has.\<close>

fun jdiv_pos :: "jsnum \<Rightarrow> real \<Rightarrow> jsnum" where
  "jdiv_pos NaN c = NaN"
| "jdiv_pos NegInf c = NegInf"
| "jdiv_pos (Fin a) c = Fin (a / c)"
| "jdiv_pos PosInf c = PosInf"

fun jabs :: "jsnum \<Rightarrow> jsnum" where
  "jabs NaN = NaN"
| "jabs NegInf = PosInf"
| "jabs (Fin a) = Fin \<bar>a\<bar>"
| "jabs PosInf = PosInf"

text \<open>\<open>x < y\<close>, \<open>x > y\<close>, \<open>x <= y\<close> and \<open>x >= y\<close>.\<close>

fun jlt :: "jsnum \<Rightarrow> jsnum \<Rightarrow> bool" where
  "jlt NaN y = False"
| "jlt x NaN = False"
| "jlt (Fin a) (Fin b) = (a < b)"
| "jlt NegInf NegInf = False"
| "jlt NegInf y = True"
| "jlt x NegInf = False"
| "jlt PosInf y = False"
| "jlt x PosInf = True"

fun jgt :: "jsnum \<Rightarrow> jsnum \<Rightarrow> bool" where
  "jgt x y = jlt y x"

fun jle :: "jsnum \<Rightarrow> jsnum \<Rightarrow> bool" where
  "jle x y = (jlt x y \<or> (x = y \<and> x \<noteq> NaN))"

fun jge :: "jsnum \<Rightarrow> jsnum \<Rightarrow> bool" where
  "jge x y = jle y x"

text \<open>\<open>Math.max(x, y)\<close> and \<open>Math.min(x, y)\<close>.\<close>

fun jmax :: "jsnum \<Rightarrow> jsnum \<Rightarrow> jsnum" where
  "jmax NaN y = NaN"
| "jmax x NaN = NaN"
| "jmax x y = (if jlt x y then y else x)"

fun jmin :: "jsnum \<Rightarrow> jsnum \<Rightarrow> jsnum" where
  "jmin NaN y = NaN"
| "jmin x NaN = NaN"
| "jmin x y = (if jlt y x then y else x)"

text \<open>\<open>x || 0\<close>: \<open>NaN\<close> and zero are falsy.\<close>

fun jor_zero :: "jsnum \<Rightarrow> jsnum" where
  "jor_zero NaN = Fin 0"
| "jor_zero x = x"

subsection \<open>Records\<close>

text \<open>
  \<open>LoveGraphPair\<close>, \<open>ChemistryDeltas\<close> and \<open>ChemDeltas\<close> have the same four numeric
  fields; TypeScript types them structurally, so one record serves for all three.  The
  record is generic in its number type: the narrative engine has JavaScript numbers in it.
\<close>

record 'n Chem =
  attraction :: 'n
  trust :: 'n
  tension :: 'n
  comfort :: 'n

type_synonym LoveGraphPair = "jsnum Chem"
type_synonym ChemistryDeltas = "jsnum Chem"

text \<open>
  The love graph is a JavaScript object used as a dictionary: an association list in
  insertion order, with at most one entry per key.
\<close>

type_synonym LoveGraph = "(string \<times> LoveGraphPair) list"

record SpokenLine =
  speaker :: string
  line_text :: string
  secs :: real
  deltas :: ChemistryDeltas

record FinalLine =
  fl_speaker :: string
  fl_text :: string
  used_tokens :: "string list"
  fl_deltas :: ChemistryDeltas

record Nudge =
  ntype :: NudgeType
  intensity :: NudgeIntensity
  nsource :: NudgeSource
  target :: "string option"
  token :: "string option"

record Scene =
  scene_act :: Act
  scene_index :: nat
  endedReason :: "EndReason option"
  majorNudges :: nat
  minorNudges :: nat

record Episode =
  actPath :: "Act list"
  scenes :: "Scene list"
  loveGraph :: LoveGraph
  activeVibe :: string
  setting :: string

text \<open>
  \<open>spotlight\<close> is typed \<open>[string, string]\<close>, but \<open>startEpisode\<close> fills it from
  \<open>seed.characters[0]\<close> and \<open>seed.characters[1]\<close>, which are \<open>undefined\<close> for a shorter
  list: \<open>None\<close> stands for \<open>undefined\<close>.  Every scene's \<open>spotlightPair\<close> is the very
  same array object as the state's \<open>spotlight\<close>, so it is not repeated in \<open>Scene\<close>.
  \<open>currentScene\<close> is the same object as the last element of \<open>episode.scenes\<close>; the model
  keeps the closed scenes in \<open>scenes\<close> and the open one in \<open>currentScene\<close>.
\<close>

record StoryState =
  episode :: Episode
  currentScene :: Scene
  spotlight :: "string option \<times> string option"
  recentLines :: "SpokenLine list"
  openLoops :: "string list"
  callbacks :: "string list"
  pendingNudges :: "Nudge list"
  recoveryBias :: "int option"
  plateauCounter :: nat
  lastMajorNudgeExchange :: int

record Checkpoint =
  cp_type :: CheckpointType
  fromAct :: Act
  toAct :: Act

record ActGate =
  allowedNudges :: "NudgeType list"
  blockedNudges :: "NudgeType list"
  coherenceWeight :: real

record SceneTransitionEvent =
  from_act :: Act
  from_scene :: nat
  to_act :: Act
  to_scene :: nat
  reason :: EndReason

datatype TelemetryEvent =
    TurnStart "Act option" nat
  | TurnEnd SpokenLine
  | NudgeApplied Nudge
  | SceneTransition SceneTransitionEvent
  | MetricTick string jsnum

record EpisodeSeed =
  characters :: "string list"
  vibe :: string
  seed_setting :: string
  importSeed :: "string option"
  previousEnding :: "string option"
  seed_callbacks :: "string list option"
  seed_openLoops :: "string list option"

record EpisodeSummary =
  sum_act :: "Act option"
  sum_scene :: nat
  sum_spotlight :: "string option \<times> string option"
  sum_openLoops :: "string list"
  lastLines :: "SpokenLine list"
  loveGraphSnapshot :: LoveGraph

record TickResult =
  producedLines :: "SpokenLine list"
  updatedSummary :: EpisodeSummary
  transitions :: "SceneTransitionEvent list"
  telemetryEvents :: "TelemetryEvent list"

text \<open>The private fields of \<open>NarrativeEngine\<close>.\<close>

record Engine =
  currentState :: "StoryState option"
  exchangeCounter :: int
  telemetryBuffer :: "TelemetryEvent list"

datatype error = NoActiveEpisode | TypeError | CollaboratorError

section \<open>String helpers of the JavaScript runtime\<close>

text \<open>\<open>String.prototype.toLowerCase\<close>, on the ASCII letters.\<close>

definition lower_char :: "char \<Rightarrow> char" where
  "lower_char c =
     (let n = (of_char c :: nat) in if 65 \<le> n \<and> n \<le> 90 then char_of (n + 32) else c)"

definition toLowerCase :: "string \<Rightarrow> string" where
  "toLowerCase s = map lower_char s"

text \<open>\<open>s.split(' ')\<close>: the pieces between single spaces; never an empty array.\<close>

fun split_acc :: "string \<Rightarrow> string \<Rightarrow> string list" where
  "split_acc cur [] = [rev cur]"
| "split_acc cur (c # cs) =
     (if c = CHR '' '' then rev cur # split_acc [] cs else split_acc (c # cur) cs)"

definition split_space :: "string \<Rightarrow> string list" where
  "split_space s = split_acc [] s"

text \<open>\<open>s.includes(t)\<close>: \<open>t\<close> occurs in \<open>s\<close> as a contiguous substring.\<close>

fun starts_with :: "string \<Rightarrow> string \<Rightarrow> bool" where
  "starts_with s [] = True"
| "starts_with [] (t # ts) = False"
| "starts_with (c # cs) (t # ts) = (c = t \<and> starts_with cs ts)"

fun str_includes :: "string \<Rightarrow> string \<Rightarrow> bool" where
  "str_includes [] t = (t = [])"
| "str_includes (c # cs) t = (starts_with (c # cs) t \<or> str_includes cs t)"

text \<open>
  The default comparison of \<open>Array.prototype.sort\<close>: strings by code unit, \<open>undefined\<close>
  last; on a two-element array the elements are swapped exactly when the second is
  smaller than the first.
\<close>

fun str_less :: "string \<Rightarrow> string \<Rightarrow> bool" where
  "str_less [] [] = False"
| "str_less [] (y # ys) = True"
| "str_less (x # xs) [] = False"
| "str_less (x # xs) (y # ys) =
     ((of_char x :: nat) < of_char y \<or> (x = y \<and> str_less xs ys))"

fun sort_pair :: "string option \<times> string option \<Rightarrow> string option \<times> string option" where
  "sort_pair (Some a, Some b) = (if str_less b a then (Some b, Some a) else (Some a, Some b))"
| "sort_pair (None, Some b) = (Some b, None)"
| "sort_pair (a, None) = (a, None)"

text \<open>\<open>[a, b].join('-')\<close>: an \<open>undefined\<close> element is written as the empty string.\<close>

fun join_dash :: "string option \<times> string option \<Rightarrow> string" where
  "join_dash (a, b) =
     (case a of None \<Rightarrow> [] | Some s \<Rightarrow> s) @ ''-'' @ (case b of None \<Rightarrow> [] | Some s \<Rightarrow> s)"

section \<open>Narrative engine: static tables\<close>

definition checkpoints :: "Checkpoint list" where
  "checkpoints =
     [\<lparr>cp_type = mutual_spark, fromAct = Act1, toAct = Act2\<rparr>,
      \<lparr>cp_type = explicit_conflict, fromAct = Act2, toAct = Act3\<rparr>,
      \<lparr>cp_type = need_boundary, fromAct = Act3, toAct = Act4\<rparr>,
      \<lparr>cp_type = relational_choice, fromAct = Act4, toAct = Act5\<rparr>]"

fun actGates :: "Act \<Rightarrow> ActGate" where
  "actGates Act1 =
     \<lparr>allowedNudges = [Comfort, Vulnerability, Recall, TempoDown],
      blockedNudges = [RaiseStakes], coherenceWeight = 0.7\<rparr>"
| "actGates Act2 =
     \<lparr>allowedNudges = [Comfort, Vulnerability, Recall, Aside, TempoUp, RaiseStakes],
      blockedNudges = [], coherenceWeight = 0.9\<rparr>"
| "actGates Act3 =
     \<lparr>allowedNudges = [RaiseStakes, Vulnerability, Aside, TempoUp],
      blockedNudges = [Comfort], coherenceWeight = 1.2\<rparr>"
| "actGates Act4 =
     \<lparr>allowedNudges = [Comfort, Vulnerability, Recall, TempoDown],
      blockedNudges = [RaiseStakes], coherenceWeight = 1.6\<rparr>"
| "actGates Act5 =
     \<lparr>allowedNudges = [Comfort, Recall, TempoDown],
      blockedNudges = [RaiseStakes, Aside], coherenceWeight = 1.8\<rparr>"

section \<open>Narrative engine: helpers\<close>

definition emitTelemetry :: "TelemetryEvent \<Rightarrow> Engine \<Rightarrow> Engine" where
  "emitTelemetry ev e = e\<lparr>telemetryBuffer := telemetryBuffer e @ [ev]\<rparr>"

text \<open>\<open>actPath[actPath.length - 1]\<close>: \<open>undefined\<close> on an empty path.\<close>

definition last_act :: "Act list \<Rightarrow> Act option" where
  "last_act p = (if p = [] then None else Some (last p))"

definition getCurrentAct :: "StoryState \<Rightarrow> Act option" where
  "getCurrentAct st = last_act (actPath (episode st))"

text \<open>\<open>this.currentState.spotlight.sort().join('-')\<close>; the sort is in place.\<close>

definition sortSpotlight :: "StoryState \<Rightarrow> StoryState" where
  "sortSpotlight st = st\<lparr>spotlight := sort_pair (spotlight st)\<rparr>"

definition pairKeyOf :: "StoryState \<Rightarrow> string" where
  "pairKeyOf st = join_dash (sort_pair (spotlight st))"

text \<open>\<open>xs.slice(-n)\<close>: the last \<open>n\<close> elements.\<close>

definition slice_last :: "nat \<Rightarrow> 'a list \<Rightarrow> 'a list" where
  "slice_last n xs = drop (length xs - n) xs"

definition buildEpisodeSummary :: "Engine \<Rightarrow> error + EpisodeSummary" where
  "buildEpisodeSummary e =
     (case currentState e of
        None \<Rightarrow> Inl NoActiveEpisode
      | Some st \<Rightarrow>
          Inr \<lparr>sum_act = getCurrentAct st,
               sum_scene = scene_index (currentScene st),
               sum_spotlight = spotlight st,
               sum_openLoops = openLoops st,
               lastLines = slice_last 3 (recentLines st),
               loveGraphSnapshot = loveGraph (episode st)\<rparr>)"

section \<open>startEpisode\<close>

text \<open>\<open>loveGraph[key] = value\<close>: replaces the entry of an existing key, appends a new one.\<close>

fun graph_put :: "string \<Rightarrow> LoveGraphPair \<Rightarrow> LoveGraph \<Rightarrow> LoveGraph" where
  "graph_put k v [] = [(k, v)]"
| "graph_put k v ((k', v') # g) =
     (if k = k' then (k, v) # g else (k', v') # graph_put k v g)"

definition initialPair :: LoveGraphPair where
  "initialPair = \<lparr>attraction = Fin 0.1, trust = Fin 0.1, tension = Fin 0.2, comfort = Fin 0.1\<rparr>"

text \<open>The inner loop (\<open>j\<close> from \<open>i + 1\<close>) and the outer loop (\<open>i\<close>) over the characters.\<close>

fun init_pairs_of :: "string \<Rightarrow> string list \<Rightarrow> LoveGraph \<Rightarrow> LoveGraph" where
  "init_pairs_of ci [] g = g"
| "init_pairs_of ci (cj # rest) g =
     init_pairs_of ci rest (graph_put (ci @ ''-'' @ cj) initialPair g)"

fun init_graph :: "string list \<Rightarrow> LoveGraph \<Rightarrow> LoveGraph" where
  "init_graph [] g = g"
| "init_graph (ci # rest) g = init_graph rest (init_pairs_of ci rest g)"

text \<open>\<open>xs[i]\<close> for reading: \<open>undefined\<close> out of range.\<close>

definition nth_opt :: "'a list \<Rightarrow> nat \<Rightarrow> 'a option" where
  "nth_opt xs i = (if i < length xs then Some (xs ! i) else None)"

text \<open>
  \<open>callbacks: seed.callbacks || []\<close> stores the seed's own array, so with an import seed
  or a previous ending \<open>importSeedContext\<close> pushes that array onto itself; likewise for
  the open loops.
\<close>

definition importSeedContext :: "EpisodeSeed \<Rightarrow> StoryState \<Rightarrow> StoryState" where
  "importSeedContext seed st =
     (let st1 = (case seed_callbacks seed of
                   None \<Rightarrow> st
                 | Some cbs \<Rightarrow> st\<lparr>callbacks := callbacks st @ callbacks st\<rparr>)
      in case seed_openLoops seed of
           None \<Rightarrow> st1
         | Some ols \<Rightarrow> st1\<lparr>openLoops := openLoops st1 @ openLoops st1\<rparr>)"

text \<open>A non-empty string is truthy, \<open>undefined\<close> and the empty string are not.\<close>

definition truthy :: "string option \<Rightarrow> bool" where
  "truthy s = (case s of None \<Rightarrow> False | Some t \<Rightarrow> t \<noteq> [])"

definition startEpisode :: "EpisodeSeed \<Rightarrow> Engine \<Rightarrow> (error + EpisodeSummary) \<times> Engine" where
  "startEpisode seed e =
     (let lg = init_graph (characters seed) [];
          ep = \<lparr>actPath = [Act1], scenes = [], loveGraph = lg,
                activeVibe = vibe seed, setting = seed_setting seed\<rparr>;
          scene = \<lparr>scene_act = Act1, scene_index = 0, endedReason = None,
                   majorNudges = 0, minorNudges = 0\<rparr>;
          st = \<lparr>episode = ep, currentScene = scene,
                spotlight = (nth_opt (characters seed) 0, nth_opt (characters seed) 1),
                recentLines = [],
                openLoops = (case seed_openLoops seed of None \<Rightarrow> [] | Some ols \<Rightarrow> ols),
                callbacks = (case seed_callbacks seed of None \<Rightarrow> [] | Some cbs \<Rightarrow> cbs),
                pendingNudges = [], recoveryBias = None, plateauCounter = 0,
                lastMajorNudgeExchange = 0\<rparr>;
          st' = (if truthy (importSeed seed) \<or> truthy (previousEnding seed)
                 then importSeedContext seed st else st);
          e' = e\<lparr>currentState := Some st', exchangeCounter := 0\<rparr>
      in (buildEpisodeSummary e', e'))"

section \<open>applyNudge\<close>

text \<open>
  The safety collaborator is external: its verdict on the serialized nudge is the first
  argument, \<open>None\<close> when the collaborator itself fails.
\<close>

definition applyNudge :: "bool option \<Rightarrow> Nudge \<Rightarrow> Engine \<Rightarrow> (error + bool) \<times> Engine" where
  "applyNudge isSafe nudgeDescriptor e =
     (case currentState e of
        None \<Rightarrow> (Inr False, e)
      | Some st \<Rightarrow>
         (case getCurrentAct st of
            None \<Rightarrow> (Inl TypeError, e)
          | Some currentAct \<Rightarrow>
             (let actGate = actGates currentAct in
              if ntype nudgeDescriptor \<in> set (blockedNudges actGate) then (Inr False, e)
              else if ntype nudgeDescriptor \<notin> set (allowedNudges actGate) then (Inr False, e)
              else if intensity nudgeDescriptor = Major
                      \<and> exchangeCounter e - lastMajorNudgeExchange st < 6 then (Inr False, e)
              else (case isSafe of
                      None \<Rightarrow> (Inl CollaboratorError, e)
                    | Some False \<Rightarrow> (Inr False, e)
                    | Some True \<Rightarrow>
                       (let st1 = st\<lparr>pendingNudges := pendingNudges st @ [nudgeDescriptor]\<rparr>;
                            sc = currentScene st1;
                            st2 = (if intensity nudgeDescriptor = Major
                                   then st1\<lparr>lastMajorNudgeExchange := exchangeCounter e,
                                            currentScene := sc\<lparr>majorNudges := majorNudges sc + 1\<rparr>,
                                            recoveryBias := Some 2\<rparr>
                                   else st1\<lparr>currentScene := sc\<lparr>minorNudges := minorNudges sc + 1\<rparr>\<rparr>)
                        in (Inr True,
                            emitTelemetry (NudgeApplied nudgeDescriptor)
                              (e\<lparr>currentState := Some st2\<rparr>)))))))"

section \<open>tick: the work done for one produced line\<close>

text \<open>
  The private methods below are written on the story state; their leading
  \<open>if (!this.currentState) return\<close> cannot fire inside \<open>tick\<close>, which checks the state first.
\<close>

definition estimateLineDuration :: "string \<Rightarrow> real" where
  "estimateLineDuration txt = min 9 (real (length (split_space txt)) / 2.5)"

definition processLine :: "FinalLine \<Rightarrow> StoryState \<Rightarrow> SpokenLine \<times> StoryState" where
  "processLine finalLine st =
     (let spokenLine = \<lparr>speaker = fl_speaker finalLine, line_text = fl_text finalLine,
                         secs = estimateLineDuration (fl_text finalLine),
                         deltas = fl_deltas finalLine\<rparr>;
          pushed = recentLines st @ [spokenLine];
          st1 = st\<lparr>recentLines := (if length pushed > 16 then slice_last 16 pushed else pushed)\<rparr>;
          st2 = (if length (used_tokens finalLine) > 0
                 then st1\<lparr>callbacks := filter (\<lambda>tok. tok \<notin> set (used_tokens finalLine))
                                                 (callbacks st1)\<rparr>
                 else st1)
      in (spokenLine, st2))"

text \<open>\<open>Math.max(0, Math.min(1, x))\<close>: \<open>NaN\<close> for \<open>NaN\<close>.\<close>

definition clamp01 :: "jsnum \<Rightarrow> jsnum" where
  "clamp01 x = jmax (Fin 0) (jmin (Fin 1) x)"

definition clamp_pair :: "LoveGraphPair \<Rightarrow> LoveGraphPair" where
  "clamp_pair p =
     \<lparr>attraction = clamp01 (attraction p), trust = clamp01 (trust p),
      tension = clamp01 (tension p), comfort = clamp01 (comfort p)\<rparr>"

text \<open>The body of the \<open>forEach\<close> of \<open>applyRippleEffects\<close> for one pair other than the primary.\<close>

definition ripple_pair :: "ChemistryDeltas \<Rightarrow> LoveGraphPair \<Rightarrow> LoveGraphPair" where
  "ripple_pair primaryDeltas pair =
     (let rippleStrength = Fin 0.1;
          p1 = (if jgt (attraction primaryDeltas) (Fin 0) \<or> jgt (comfort primaryDeltas) (Fin 0)
                then pair\<lparr>attraction := jadd (attraction pair)
                                           (jmul (attraction primaryDeltas) rippleStrength),
                          comfort := jadd (comfort pair)
                                        (jmul (comfort primaryDeltas) rippleStrength)\<rparr>
                else pair);
          p2 = (if jgt (tension primaryDeltas) (Fin 0.1)
                then p1\<lparr>tension := jadd (tension p1)
                           (jmul (jmul (tension primaryDeltas) rippleStrength) (Fin 0.5)),
                        trust := jsub (trust p1)
                           (jmul (jmul (tension primaryDeltas) rippleStrength) (Fin 0.3))\<rparr>
                else p1)
      in clamp_pair p2)"

definition applyRippleEffects :: "SpokenLine \<Rightarrow> string \<Rightarrow> StoryState \<Rightarrow> StoryState" where
  "applyRippleEffects line primaryPairKey st =
     st\<lparr>episode := (episode st)\<lparr>loveGraph :=
          map (\<lambda>(pairKey, pair).
                 if pairKey = primaryPairKey then (pairKey, pair)
                 else (pairKey, ripple_pair (deltas line) pair))
              (loveGraph (episode st))\<rparr>\<rparr>"

definition updateLoveGraph :: "SpokenLine \<Rightarrow> StoryState \<Rightarrow> StoryState" where
  "updateLoveGraph line st =
     (let st1 = sortSpotlight st;
          pairKey = join_dash (spotlight st1)
      in case map_of (loveGraph (episode st1)) pairKey of
           None \<Rightarrow> st1
         | Some currentPair \<Rightarrow>
            (let added = \<lparr>attraction = jadd (attraction currentPair) (attraction (deltas line)),
                          trust = jadd (trust currentPair) (trust (deltas line)),
                          tension = jadd (tension currentPair) (tension (deltas line)),
                          comfort = jadd (comfort currentPair) (comfort (deltas line))\<rparr>;
                 st2 = st1\<lparr>episode := (episode st1)\<lparr>loveGraph :=
                          graph_put pairKey (clamp_pair added) (loveGraph (episode st1))\<rparr>\<rparr>
             in applyRippleEffects line pairKey st2))"

text \<open>
  \<open>checkActAdvancement\<close> also sorts the spotlight in place; the caller applies
  \<open>sortSpotlight\<close> for that effect, and the function itself is the value returned.
\<close>

definition checkActAdvancement :: "StoryState \<Rightarrow> Checkpoint option" where
  "checkActAdvancement st =
     (case getCurrentAct st of
        None \<Rightarrow> None
      | Some currentAct \<Rightarrow>
         (case find (\<lambda>c. fromAct c = currentAct) checkpoints of
            None \<Rightarrow> None
          | Some checkpoint \<Rightarrow>
             (case map_of (loveGraph (episode st)) (pairKeyOf st) of
                None \<Rightarrow> None
              | Some loveData \<Rightarrow>
                 (case cp_type checkpoint of
                    mutual_spark \<Rightarrow>
                      (let hasReciprocal = jge (attraction loveData) (Fin 0.4);
                           hasSharedMoment = (length (callbacks st) > 0 \<or>
                              list_ex (\<lambda>l. jgt (trust (deltas l)) (Fin 0.05)) (recentLines st))
                       in if hasReciprocal \<and> hasSharedMoment then Some checkpoint else None)
                  | explicit_conflict \<Rightarrow>
                      (let hasConflict = jge (tension loveData) (Fin 0.6);
                           hasSpokenDisagreement = list_ex (\<lambda>l.
                              str_includes (toLowerCase (line_text l)) ''disagree'' \<or>
                              str_includes (toLowerCase (line_text l)) ''wrong'' \<or>
                              jgt (tension (deltas l)) (Fin 0.1)) (recentLines st)
                       in if hasConflict \<and> hasSpokenDisagreement then Some checkpoint else None)
                  | need_boundary \<Rightarrow>
                      (let hasTrust = jge (trust loveData) (Fin 0.6);
                           hasBoundaryStatement = list_ex (\<lambda>l.
                              str_includes (toLowerCase (line_text l)) ''need'' \<or>
                              str_includes (toLowerCase (line_text l)) ''want'' \<or>
                              str_includes (toLowerCase (line_text l)) ''boundary'') (recentLines st)
                       in if hasTrust \<and> hasBoundaryStatement then Some checkpoint else None)
                  | relational_choice \<Rightarrow>
                      (let hasCommitment = list_ex (\<lambda>l.
                              str_includes (toLowerCase (line_text l)) ''choose'' \<or>
                              str_includes (toLowerCase (line_text l)) ''want us'' \<or>
                              str_includes (toLowerCase (line_text l)) ''together'') (recentLines st)
                       in if hasCommitment then Some checkpoint else None)))))"

text \<open>
  \<open>advanceAct\<close>: the transition event is returned; the caller appends it to the telemetry
  buffer, as \<open>emitTelemetry(transition)\<close> does.
\<close>

definition advanceAct :: "Checkpoint \<Rightarrow> StoryState \<Rightarrow> SceneTransitionEvent \<times> StoryState" where
  "advanceAct checkpoint st =
     (let closed = (currentScene st)\<lparr>endedReason := Some EndCheckpoint\<rparr>;
          newScene = \<lparr>scene_act = toAct checkpoint,
                      scene_index = scene_index (currentScene st) + 1,
                      endedReason = None, majorNudges = 0, minorNudges = 0\<rparr>;
          st' = st\<lparr>episode := (episode st)\<lparr>actPath := actPath (episode st) @ [toAct checkpoint],
                                            scenes := scenes (episode st) @ [closed]\<rparr>,
                   currentScene := newScene,
                   plateauCounter := 0\<rparr>;
          transition = \<lparr>from_act = fromAct checkpoint,
                        from_scene = scene_index newScene - 1,
                        to_act = toAct checkpoint,
                        to_scene = scene_index newScene,
                        reason = EndCheckpoint\<rparr>
      in (transition, st'))"

text \<open>Jaccard similarity of the two texts' word sets.\<close>

definition calculateTextSimilarity :: "string \<Rightarrow> string \<Rightarrow> real" where
  "calculateTextSimilarity text1 text2 =
     (let words1 = remdups (split_space (toLowerCase text1));
          words2 = remdups (split_space (toLowerCase text2));
          intersection = filter (\<lambda>x. x \<in> set words2) words1;
          union = remdups (words1 @ words2)
      in real (length intersection) / real (length union))"

fun hasRepetition :: "SpokenLine list \<Rightarrow> bool" where
  "hasRepetition [] = False"
| "hasRepetition (line # rest) =
     (list_ex (\<lambda>other. calculateTextSimilarity (line_text line) (line_text other) > 0.8) rest
      \<or> hasRepetition rest)"

text \<open>The function reduced over the last three lines: the sum so far plus the four magnitudes.\<close>

definition addMagnitude :: "jsnum \<Rightarrow> SpokenLine \<Rightarrow> jsnum" where
  "addMagnitude acc line =
     jadd (jadd (jadd (jadd acc (jabs (attraction (deltas line)))) (jabs (trust (deltas line))))
             (jabs (tension (deltas line)))) (jabs (comfort (deltas line)))"

text \<open>\<open>checkPlateau\<close> returns the events it emits together with the new state.\<close>

definition checkPlateau :: "StoryState \<Rightarrow> TelemetryEvent list \<times> StoryState" where
  "checkPlateau st =
     (let recentDeltas = slice_last 3 (recentLines st) in
      if length recentDeltas < 3 then ([], st)
      else
        (let avgDeltaMagnitude =
               jdiv_pos (foldl addMagnitude (Fin 0) recentDeltas)
                 (real (length recentDeltas * 4))
         in if jlt avgDeltaMagnitude (Fin 0.02) \<or> hasRepetition recentDeltas
            then ([MetricTick ''plateau_detected'' (Fin (real (plateauCounter st + 1)))],
                  st\<lparr>plateauCounter := plateauCounter st + 1\<rparr>)
            else ([], st\<lparr>plateauCounter := 0\<rparr>)))"

text \<open>What the body of the \<open>for (const finalLine of finalLines)\<close> loop of \<open>tick\<close> threads.\<close>

record TickLoop =
  loop_state :: StoryState
  loop_buffer :: "TelemetryEvent list"
  loop_lines :: "SpokenLine list"
  loop_transitions :: "SceneTransitionEvent list"

definition tick_line :: "FinalLine \<Rightarrow> TickLoop \<Rightarrow> TickLoop" where
  "tick_line finalLine a =
     (let (spokenLine, st1) = processLine finalLine (loop_state a);
          st2 = updateLoveGraph spokenLine st1;
          checkpoint = checkActAdvancement st2;
          st3 = sortSpotlight st2;
          a1 = a\<lparr>loop_lines := loop_lines a @ [spokenLine]\<rparr>;
          a2 = (case checkpoint of
                  None \<Rightarrow> a1\<lparr>loop_state := st3\<rparr>
                | Some c \<Rightarrow>
                   (let (transition, st4) = advanceAct c st3
                    in a1\<lparr>loop_state := st4,
                          loop_buffer := loop_buffer a1 @ [SceneTransition transition],
                          loop_transitions := loop_transitions a1 @ [transition]\<rparr>));
          (events, st5) = checkPlateau (loop_state a2)
      in a2\<lparr>loop_state := st5, loop_buffer := loop_buffer a2 @ events\<rparr>)"

fun tick_lines :: "FinalLine list \<Rightarrow> TickLoop \<Rightarrow> TickLoop" where
  "tick_lines [] a = a"
| "tick_lines (finalLine # rest) a = tick_lines rest (tick_line finalLine a)"

section \<open>tick\<close>

definition processPendingNudges :: "StoryState \<Rightarrow> StoryState" where
  "processPendingNudges st = st\<lparr>pendingNudges := []\<rparr>"

definition updateRecoveryBias :: "StoryState \<Rightarrow> StoryState" where
  "updateRecoveryBias st =
     (case recoveryBias st of
        None \<Rightarrow> st
      | Some exchangesLeft \<Rightarrow>
          (if exchangesLeft - 1 \<le> 0 then st\<lparr>recoveryBias := None\<rparr>
           else st\<lparr>recoveryBias := Some (exchangesLeft - 1)\<rparr>))"

text \<open>\<open>emitMetrics\<close>: the four metric events; reading the spotlight's pair sorts the spotlight.\<close>

definition emitMetrics :: "int \<Rightarrow> StoryState \<Rightarrow> TelemetryEvent list \<times> StoryState" where
  "emitMetrics counter st =
     (let st1 = sortSpotlight st in
      ([MetricTick ''exchange_counter'' (Fin (real_of_int counter)),
        MetricTick ''plateau_counter'' (Fin (real (plateauCounter st1))),
        MetricTick ''active_callbacks'' (Fin (real (length (callbacks st1)))),
        MetricTick ''love_graph_attraction''
          (case map_of (loveGraph (episode st1)) (join_dash (spotlight st1)) of
             None \<Rightarrow> Fin 0 | Some p \<Rightarrow> jor_zero (attraction p))], st1))"

text \<open>
  The character orchestrator is external: \<open>generated\<close> is what \<open>executeBeatPlan\<close> returns
  for this exchange, \<open>None\<close> when it throws.  \<open>buildAgentState\<close> sorts the spotlight while
  reading its pair, and \<open>buildConstraints\<close> reads the description of the current act's
  gate, which throws when the act path is empty.
\<close>

definition tick :: "FinalLine list option \<Rightarrow> Engine \<Rightarrow> (error + TickResult) \<times> Engine" where
  "tick generated e =
     (case currentState e of
        None \<Rightarrow> (Inl NoActiveEpisode, e)
      | Some st \<Rightarrow>
         (let e1 = e\<lparr>exchangeCounter := exchangeCounter e + 1\<rparr>;
              e2 = emitTelemetry (TurnStart (getCurrentAct st) (scene_index (currentScene st))) e1;
              st1 = sortSpotlight st;
              e3 = e2\<lparr>currentState := Some st1\<rparr>
          in case getCurrentAct st1 of
               None \<Rightarrow> (Inl TypeError, e3)
             | Some currentAct \<Rightarrow>
                (case generated of
                   None \<Rightarrow> (Inl CollaboratorError, e3)
                 | Some finalLines \<Rightarrow>
                    (let a = tick_lines finalLines
                               \<lparr>loop_state = st1, loop_buffer = telemetryBuffer e3,
                                loop_lines = [], loop_transitions = []\<rparr>;
                         st2 = updateRecoveryBias (processPendingNudges (loop_state a));
                         (metrics, st3) = emitMetrics (exchangeCounter e3) st2;
                         buffer = loop_buffer a @ metrics @ map TurnEnd (loop_lines a);
                         e4 = e3\<lparr>currentState := Some st3, telemetryBuffer := buffer\<rparr>
                     in case buildEpisodeSummary e4 of
                          Inl err \<Rightarrow> (Inl err, e4)
                        | Inr summary \<Rightarrow>
                           (Inr \<lparr>producedLines = loop_lines a, updatedSummary = summary,
                                 transitions = loop_transitions a,
                                 telemetryEvents = buffer\<rparr>,
                            e4\<lparr>telemetryBuffer := []\<rparr>)))))"

section \<open>Sequences of calls on one engine\<close>

datatype call =
    CallStart EpisodeSeed
  | CallNudge "bool option" Nudge
  | CallTick "FinalLine list option"

fun step :: "call \<Rightarrow> Engine \<Rightarrow> Engine" where
  "step (CallStart seed) e = snd (startEpisode seed e)"
| "step (CallNudge isSafe n) e = snd (applyNudge isSafe n e)"
| "step (CallTick generated) e = snd (tick generated e)"

fun run :: "call list \<Rightarrow> Engine \<Rightarrow> Engine" where
  "run [] e = e"
| "run (c # cs) e = run cs (step c e)"

fun is_tick :: "call \<Rightarrow> bool" where
  "is_tick (CallTick generated) = True"
| "is_tick c = False"

fun is_start :: "call \<Rightarrow> bool" where
  "is_start (CallStart seed) = True"
| "is_start c = False"

definition ticks :: "call list \<Rightarrow> nat" where
  "ticks cs = length (filter is_tick cs)"

text \<open>The engine as constructed: no episode, counter zero, empty buffer.\<close>

definition newEngine :: Engine where
  "newEngine = \<lparr>currentState = None, exchangeCounter = 0, telemetryBuffer = []\<rparr>"

section \<open>Evaluation engine (engines/evaluation)\<close>

record EvaluationScores =
  freshnessGain :: real
  coherenceCost :: real
  fragilityIndex :: real
  finalScore :: real

record FragilityComponents =
  highTension :: real
  lowTrust :: real
  recentContradictions :: real
  fragility_total :: real

record FreshnessComponents =
  semanticNovelty :: real
  diversityBonus :: real
  stagnationBuster :: real
  callbackRevival :: real
  freshness_total :: real

record CoherenceComponents =
  personaDrift :: real
  actGrammarViolation :: real
  continuityContradiction :: real
  safetyGuard :: real
  coherence_total :: real

record EvaluationSnapshot =
  candidate :: Nudge
  scores :: EvaluationScores
  rationales :: "string list"
  chosen :: bool

text \<open>
  Of \<open>EvaluationState\<close>, the fields the engine reads.  The evaluation engine is modelled
  on finite numbers: its scores and the deltas it keeps from past telemetry are reals.
\<close>

record EvaluationState =
  structural_act :: Act
  callbackActivity :: "string list"

record EvaluationRecommendation =
  autoNudge :: "Nudge option"
  rec_rationales :: "string list"
  rec_scores :: EvaluationScores
  abstain :: bool

record EvaluationEngine =
  rollingWindow :: "SpokenLine list"
  recentDeltas :: "real Chem list"
  evaluationSnapshots :: "EvaluationSnapshot list"
  majorNudgeCount :: nat
  lastMajorNudgeTime :: int
  eval_exchangeCounter :: int

record ScoredCandidate =
  sc_nudge :: Nudge
  sc_scores :: EvaluationScores
  sc_rationales :: "string list"

fun actCoherenceWeights :: "Act \<Rightarrow> real" where
  "actCoherenceWeights Act1 = 0.7"
| "actCoherenceWeights Act2 = 0.9"
| "actCoherenceWeights Act3 = 1.2"
| "actCoherenceWeights Act4 = 1.6"
| "actCoherenceWeights Act5 = 1.8"

definition windowSize :: nat where
  "windowSize = 12"

definition majorNudgeCooldown :: int where
  "majorNudgeCooldown = 6"

definition minScoreThreshold :: real where
  "minScoreThreshold = 0.3"

definition addToRollingWindow :: "SpokenLine \<Rightarrow> EvaluationEngine \<Rightarrow> EvaluationEngine" where
  "addToRollingWindow line ev =
     (let pushed = rollingWindow ev @ [line]
      in ev\<lparr>rollingWindow := (if length pushed > windowSize
                                then slice_last windowSize pushed else pushed)\<rparr>)"

text \<open>The first contradictory pair that matches ends the loop with 0.5.\<close>

definition detectContradictions :: "EvaluationEngine \<Rightarrow> real" where
  "detectContradictions ev =
     (if length (rollingWindow ev) < 2 then 0
      else
        (let recent = slice_last 2 (rollingWindow ev);
             contradictoryPairs = [(''yes'', ''no''), (''love'', ''hate''),
                                   (''trust'', ''distrust''), (''want'', ''don'' @ [CHR 0x27] @ ''t want'')]
         in if list_ex (\<lambda>(word1, word2).
                  str_includes (toLowerCase (line_text (recent ! 0))) word1 \<and>
                  str_includes (toLowerCase (line_text (recent ! 1))) word2) contradictoryPairs
            then 0.5 else 0.1))"

definition calculateFragilityIndex :: "EvaluationEngine \<Rightarrow> FragilityComponents" where
  "calculateFragilityIndex ev =
     (let avgTension = (if length (recentDeltas ev) > 0
                        then foldl (\<lambda>sum delta. sum + tension delta) 0 (recentDeltas ev)
                               / real (length (recentDeltas ev))
                        else 0.2);
          highTension = max 0 (avgTension - 0.5) * 2;
          avgTrust = (if length (recentDeltas ev) > 0
                      then foldl (\<lambda>sum delta. sum + trust delta) 0 (recentDeltas ev)
                             / real (length (recentDeltas ev))
                      else 0.3);
          lowTrust = max 0 (0.5 - avgTrust) * 2;
          recentContradictions = detectContradictions ev;
          total = min 1 (0.4 * highTension + 0.4 * lowTrust + 0.2 * recentContradictions)
      in \<lparr>highTension = highTension, lowTrust = lowTrust,
          recentContradictions = recentContradictions, fragility_total = total\<rparr>)"

text \<open>
  The embeddings come from an external service: \<open>similarity\<close> gives, for a candidate, the
  average cosine similarity of its mock line to the last three lines of the window, \<open>None\<close>
  when the service fails and the \<open>catch\<close> branch answers.
\<close>

definition calculateSemanticNovelty ::
  "(Nudge \<Rightarrow> real option) \<Rightarrow> Nudge \<Rightarrow> EvaluationEngine \<Rightarrow> real" where
  "calculateSemanticNovelty similarity cand ev =
     (if length (rollingWindow ev) < 2 then 0.8
      else (case similarity cand of
              None \<Rightarrow> 0.5
            | Some avgSimilarity \<Rightarrow> max 0 (1 - avgSimilarity)))"

definition calculateDiversityBonus :: "NudgeType \<Rightarrow> EvaluationEngine \<Rightarrow> real" where
  "calculateDiversityBonus nudgeType ev =
     (let recentNudges = map (\<lambda>s. ntype (candidate s))
                           (filter chosen (slice_last 10 (evaluationSnapshots ev)));
          recentUsage = length (filter (\<lambda>t. t = nudgeType) recentNudges)
      in max 0 (1 - real recentUsage * 0.3))"

definition chemMagnitude :: "real Chem \<Rightarrow> real" where
  "chemMagnitude delta =
     \<bar>attraction delta\<bar> + \<bar>trust delta\<bar> + \<bar>tension delta\<bar> + \<bar>comfort delta\<bar>"

definition calculateStagnationBuster :: "EvaluationEngine \<Rightarrow> real" where
  "calculateStagnationBuster ev =
     (if length (recentDeltas ev) < 3 then 0
      else
        (let recentMagnitudes = map chemMagnitude (slice_last 3 (recentDeltas ev));
             avgMagnitude = foldl (\<lambda>a b. a + b) 0 recentMagnitudes
                              / real (length recentMagnitudes)
         in if avgMagnitude < 0.05 then 0.8 else 0.2))"

definition calculateFreshnessGain ::
  "(Nudge \<Rightarrow> real option) \<Rightarrow> Nudge \<Rightarrow> EvaluationEngine \<Rightarrow> FreshnessComponents" where
  "calculateFreshnessGain similarity cand ev =
     (let semanticNovelty = calculateSemanticNovelty similarity cand ev;
          diversityBonus = calculateDiversityBonus (ntype cand) ev;
          stagnationBuster = calculateStagnationBuster ev;
          callbackRevival = (if truthy (token cand) then 0.3 else 0);
          total = min 1 (0.4 * semanticNovelty + 0.3 * diversityBonus
                          + 0.2 * stagnationBuster + 0.1 * callbackRevival)
      in \<lparr>semanticNovelty = semanticNovelty, diversityBonus = diversityBonus,
          stagnationBuster = stagnationBuster, callbackRevival = callbackRevival,
          freshness_total = total\<rparr>)"

fun assessPersonaDriftRisk :: "NudgeType \<Rightarrow> real" where
  "assessPersonaDriftRisk RaiseStakes = 0.3"
| "assessPersonaDriftRisk Vulnerability = 0.1"
| "assessPersonaDriftRisk Comfort = 0.05"
| "assessPersonaDriftRisk Recall = 0.1"
| "assessPersonaDriftRisk Aside = 0.2"
| "assessPersonaDriftRisk TempoUp = 0.15"
| "assessPersonaDriftRisk TempoDown = 0.1"

fun assessActGrammarViolation :: "NudgeType \<Rightarrow> Act \<Rightarrow> real" where
  "assessActGrammarViolation RaiseStakes Act1 = 0.8"
| "assessActGrammarViolation Comfort Act3 = 0.6"
| "assessActGrammarViolation RaiseStakes Act4 = 0.7"
| "assessActGrammarViolation RaiseStakes Act5 = 0.9"
| "assessActGrammarViolation Aside Act5 = 0.8"
| "assessActGrammarViolation t a = 0.1"

definition assessContinuityRisk :: "Nudge \<Rightarrow> EvaluationState \<Rightarrow> real" where
  "assessContinuityRisk cand state =
     (if ntype cand = Recall \<and> length (callbackActivity state) = 0 then 0.8 else 0.1)"

definition assessSafetyRisk :: "Nudge \<Rightarrow> real" where
  "assessSafetyRisk cand =
     (if ntype cand = RaiseStakes \<and> intensity cand = Major then 0.2 else 0.05)"

definition calculateCoherenceCost :: "Nudge \<Rightarrow> EvaluationState \<Rightarrow> CoherenceComponents" where
  "calculateCoherenceCost cand state =
     (let personaDrift = assessPersonaDriftRisk (ntype cand);
          actGrammarViolation = assessActGrammarViolation (ntype cand) (structural_act state);
          continuityContradiction = assessContinuityRisk cand state;
          safetyGuard = assessSafetyRisk cand;
          actWeight = (real (act_num (structural_act state)) - 1) * 0.1 + 1;
          total = min 1 (actWeight * (0.3 * personaDrift + 0.25 * actGrammarViolation
                                       + 0.25 * continuityContradiction + 0.2 * safetyGuard))
      in \<lparr>personaDrift = personaDrift, actGrammarViolation = actGrammarViolation,
          continuityContradiction = continuityContradiction, safetyGuard = safetyGuard,
          coherence_total = total\<rparr>)"

definition calculateLambda :: "real \<Rightarrow> Act \<Rightarrow> real" where
  "calculateLambda fragility act =
     (let baseWeight = actCoherenceWeights act;
          fragilityMultiplier = 0.6 + (fragility * 1.2)
      in baseWeight * fragilityMultiplier)"

definition scoreNudgeCandidate ::
  "(Nudge \<Rightarrow> real option) \<Rightarrow> Nudge \<Rightarrow> EvaluationState \<Rightarrow> FragilityComponents
     \<Rightarrow> EvaluationEngine \<Rightarrow> EvaluationScores" where
  "scoreNudgeCandidate similarity cand state fragility ev =
     (let freshnessComponents = calculateFreshnessGain similarity cand ev;
          coherenceComponents = calculateCoherenceCost cand state;
          lambda = calculateLambda (fragility_total fragility) (structural_act state);
          final = freshness_total freshnessComponents
                    - (lambda * coherence_total coherenceComponents)
      in \<lparr>freshnessGain = freshness_total freshnessComponents,
          coherenceCost = coherence_total coherenceComponents,
          fragilityIndex = fragility_total fragility,
          finalScore = max (- 1) (min 1 final)\<rparr>)"

fun availableNudges :: "Act \<Rightarrow> NudgeType list" where
  "availableNudges Act1 = [Comfort, Vulnerability, Recall, TempoDown]"
| "availableNudges Act2 = [Comfort, Vulnerability, Recall, Aside, TempoUp, RaiseStakes]"
| "availableNudges Act3 = [RaiseStakes, Vulnerability, Aside, TempoUp]"
| "availableNudges Act4 = [Comfort, Vulnerability, Recall, TempoDown]"
| "availableNudges Act5 = [Comfort, Recall, TempoDown]"

definition determineNudgeIntensity :: "NudgeType \<Rightarrow> NudgeIntensity" where
  "determineNudgeIntensity nudgeType = (if nudgeType \<in> set [RaiseStakes] then Major else Minor)"

definition generateNudgeCandidates :: "EvaluationState \<Rightarrow> Nudge list" where
  "generateNudgeCandidates state =
     take 5 (map (\<lambda>nudgeType.
        \<lparr>ntype = nudgeType, intensity = determineNudgeIntensity nudgeType, nsource = Auto,
         target = None,
         token = (if nudgeType = Recall \<and> length (callbackActivity state) > 0
                  then Some (callbackActivity state ! 0) else None)\<rparr>)
       (availableNudges (structural_act state)))"

text \<open>
  \<open>checkCadenceConstraints\<close>: the \<open>allowed\<close> field of the result; the reason string is
  chosen where \<open>consider\<close> reports it, without the number of exchanges remaining.
\<close>

definition checkCadenceConstraints :: "Nudge \<Rightarrow> EvaluationEngine \<Rightarrow> bool" where
  "checkCadenceConstraints nudge ev =
     (if intensity nudge = Major
         \<and> eval_exchangeCounter ev - lastMajorNudgeTime ev < majorNudgeCooldown then False
      else if eval_exchangeCounter ev - lastMajorNudgeTime ev \<le> 2 \<and> ntype nudge \<noteq> Comfort
      then False
      else True)"

definition generateRationales ::
  "Nudge \<Rightarrow> EvaluationScores \<Rightarrow> EvaluationState \<Rightarrow> EvaluationEngine \<Rightarrow> string list" where
  "generateRationales cand sc state ev =
     (let rs = (if freshnessGain sc > 0.7 then [''High novelty potential''] else [])
             @ (if truthy (token cand) then [''Dormant callback revival''] else [])
             @ (if calculateStagnationBuster ev > 0.6 then [''Story momentum stagnating''] else [])
             @ (if coherenceCost sc > 0.5 then [''Moderate coherence risk''] else [])
             @ (if act_num (structural_act state) \<ge> 4 \<and> ntype cand = RaiseStakes
                then [''Late-act stakes escalation''] else [])
             @ (if act_num (structural_act state) \<le> 2 \<and> ntype cand = Vulnerability
                then [''Early vulnerability building''] else [])
             @ (if fragilityIndex sc > 0.6 \<and> ntype cand = Comfort
                then [''Fragile scene needs stabilization''] else [])
      in if length rs > 0 then rs else [''Standard progression nudge''])"

text \<open>The scoring loop of \<open>consider\<close>: every candidate is scored and logged as a snapshot.\<close>

fun score_candidates ::
  "(Nudge \<Rightarrow> real option) \<Rightarrow> EvaluationState \<Rightarrow> FragilityComponents \<Rightarrow> Nudge list
     \<Rightarrow> ScoredCandidate list \<times> EvaluationEngine \<Rightarrow> ScoredCandidate list \<times> EvaluationEngine" where
  "score_candidates similarity state fragility [] acc = acc"
| "score_candidates similarity state fragility (cand # rest) (scored, ev) =
     (let sc = scoreNudgeCandidate similarity cand state fragility ev;
          rs = generateRationales cand sc state ev;
          snapshot = \<lparr>candidate = cand, scores = sc, rationales = rs, chosen = False\<rparr>
      in score_candidates similarity state fragility rest
           (scored @ [\<lparr>sc_nudge = cand, sc_scores = sc, sc_rationales = rs\<rparr>],
            ev\<lparr>evaluationSnapshots := evaluationSnapshots ev @ [snapshot]\<rparr>))"

text \<open>
  \<open>evaluationSnapshots.find(s => s.candidate === bestCandidate.nudge)\<close> compares object
  identity, so it finds the snapshot logged for that candidate by this very call: the
  search is over the snapshots from position \<open>n\<close> on, where one call's candidates differ
  in their types.
\<close>

fun mark_chosen :: "Nudge \<Rightarrow> EvaluationSnapshot list \<Rightarrow> EvaluationSnapshot list" where
  "mark_chosen best [] = []"
| "mark_chosen best (s # rest) =
     (if candidate s = best then s\<lparr>chosen := True\<rparr> # rest else s # mark_chosen best rest)"

text \<open>\<open>consider\<close> (the name is reserved in Isabelle).\<close>

definition considerNudge ::
  "(Nudge \<Rightarrow> real option) \<Rightarrow> EvaluationState \<Rightarrow> SpokenLine option \<Rightarrow> EvaluationEngine
     \<Rightarrow> EvaluationRecommendation \<times> EvaluationEngine" where
  "considerNudge similarity state lastLine ev0 =
     (let ev1 = ev0\<lparr>eval_exchangeCounter := eval_exchangeCounter ev0 + 1\<rparr>;
          ev2 = (case lastLine of None \<Rightarrow> ev1 | Some line \<Rightarrow> addToRollingWindow line ev1);
          fragility = calculateFragilityIndex ev2;
          candidates = generateNudgeCandidates state;
          (scored, ev3) = score_candidates similarity state fragility candidates ([], ev2);
          ranked = sort_key (\<lambda>c. - finalScore (sc_scores c)) scored
      in case ranked of
           [] \<Rightarrow>
             (\<lparr>autoNudge = None,
               rec_rationales = [''All candidates below minimum threshold'',
                                 ''Maintaining current trajectory''],
               rec_scores = \<lparr>freshnessGain = 0, coherenceCost = 0,
                             fragilityIndex = fragility_total fragility, finalScore = 0\<rparr>,
               abstain = True\<rparr>, ev3)
         | bestCandidate # others \<Rightarrow>
             if finalScore (sc_scores bestCandidate) < minScoreThreshold
             then (\<lparr>autoNudge = None,
                    rec_rationales = [''All candidates below minimum threshold'',
                                      ''Maintaining current trajectory''],
                    rec_scores = \<lparr>freshnessGain = 0, coherenceCost = 0,
                                  fragilityIndex = fragility_total fragility, finalScore = 0\<rparr>,
                    abstain = True\<rparr>, ev3)
             else if \<not> checkCadenceConstraints (sc_nudge bestCandidate) ev3
             then (\<lparr>autoNudge = None,
                    rec_rationales = [if intensity (sc_nudge bestCandidate) = Major
                                         \<and> eval_exchangeCounter ev3 - lastMajorNudgeTime ev3
                                             < majorNudgeCooldown
                                      then ''Major nudge cooldown''
                                      else ''Recovery period active - comfort/clarify nudges preferred'',
                                      ''Respecting nudge cadence limits''],
                    rec_scores = sc_scores bestCandidate,
                    abstain = True\<rparr>, ev3)
             else (\<lparr>autoNudge = Some (sc_nudge bestCandidate),
                    rec_rationales = sc_rationales bestCandidate,
                    rec_scores = sc_scores bestCandidate,
                    abstain = False\<rparr>,
                   ev3\<lparr>evaluationSnapshots :=
                         take (length (evaluationSnapshots ev2)) (evaluationSnapshots ev3)
                         @ mark_chosen (sc_nudge bestCandidate)
                             (drop (length (evaluationSnapshots ev2)) (evaluationSnapshots ev3))\<rparr>))"

section \<open>Predicates of the properties\<close>

text \<open>A number lies in the closed interval from 0 to 1; \<open>NaN\<close> does not.\<close>

definition unit_num :: "jsnum \<Rightarrow> bool" where
  "unit_num x = (jle (Fin 0) x \<and> jle x (Fin 1))"

text \<open>All four dimensions of a pair record lie in the closed interval from 0 to 1.\<close>

definition unit_pair :: "LoveGraphPair \<Rightarrow> bool" where
  "unit_pair p = (unit_num (attraction p) \<and> unit_num (trust p)
     \<and> unit_num (tension p) \<and> unit_num (comfort p))"

text \<open>Every pair record of a love graph lies in the unit interval.\<close>

definition unit_graph :: "LoveGraph \<Rightarrow> bool" where
  "unit_graph g = list_all (\<lambda>(k, p). unit_pair p) g"

text \<open>None of the four components of a delta vector or pair record is \<open>NaN\<close>.\<close>

definition no_nan :: "jsnum Chem \<Rightarrow> bool" where
  "no_nan d = (attraction d \<noteq> NaN \<and> trust d \<noteq> NaN \<and> tension d \<noteq> NaN \<and> comfort d \<noteq> NaN)"

text \<open>A call that hands the engine no line with a \<open>NaN\<close> delta.\<close>

fun call_no_nan :: "call \<Rightarrow> bool" where
  "call_no_nan (CallTick (Some finalLines)) = list_all (\<lambda>fl. no_nan (fl_deltas fl)) finalLines"
| "call_no_nan c = True"

text \<open>The love graph of the active episode, if there is one, lies in the unit interval.\<close>

definition engine_unit :: "Engine \<Rightarrow> bool" where
  "engine_unit e = (case currentState e of
       None \<Rightarrow> True
     | Some st \<Rightarrow> unit_graph (loveGraph (episode st)))"

text \<open>An act path starts with act 1 and every entry is the act after its predecessor.\<close>

definition path_ok :: "Act list \<Rightarrow> bool" where
  "path_ok p = (p \<noteq> [] \<and> hd p = Act1 \<and> successively (\<lambda>a b. act_num b = Suc (act_num a)) p)"

text \<open>The invariant of the act path: the active episode, if there is one, has a well-formed one.\<close>

definition engine_ok :: "Engine \<Rightarrow> bool" where
  "engine_ok e = (case currentState e of
       None \<Rightarrow> True
     | Some st \<Rightarrow> path_ok (actPath (episode st)))"

text \<open>The state the loop body of \<open>tick\<close> hands to the checkpoint detector: the line
  processed and the love graph updated.\<close>

definition line_state :: "FinalLine \<Rightarrow> StoryState \<Rightarrow> StoryState" where
  "line_state fl st = updateLoveGraph (fst (processLine fl st)) (snd (processLine fl st))"

text \<open>The two conditions of the 1\<rightarrow>2 checkpoint as the specification words them: attraction of
  the spotlighted pair at least 0.4, and an open callback or a recent line with a trust
  delta above 0.05.\<close>

definition mutual_spark_ready :: "StoryState \<Rightarrow> bool" where
  "mutual_spark_ready st =
     (case map_of (loveGraph (episode st)) (pairKeyOf st) of
        None \<Rightarrow> False
      | Some loveData \<Rightarrow> jge (attraction loveData) (Fin 0.4)
          \<and> (callbacks st \<noteq> []
               \<or> list_ex (\<lambda>l. jgt (trust (deltas l)) (Fin 0.05)) (recentLines st)))"

text \<open>The final score as the specification words it: freshness gain minus \<open>\<lambda>\<close> times
  coherence cost, clamped to the interval from -1 to 1, with \<open>\<lambda>\<close> the act weight times
  \<open>0.6 + fragility * 1.2\<close>.\<close>

definition score_formula :: "Act \<Rightarrow> EvaluationScores \<Rightarrow> bool" where
  "score_formula act sc =
     (finalScore sc = max (- 1) (min 1 (freshnessGain sc
         - actCoherenceWeights act * (0.6 + fragilityIndex sc * 1.2) * coherenceCost sc)))"

section \<open>Example inputs\<close>

text \<open>
  A two-character episode, the lines of two exchanges with deltas of typical size, and the
  states they lead to; an evaluation of a fresh act-1 scene; states with chosen love graphs.
\<close>

definition finite_chem :: "real \<Rightarrow> real \<Rightarrow> real \<Rightarrow> real \<Rightarrow> jsnum Chem" where
  "finite_chem a t te c = \<lparr>attraction = Fin a, trust = Fin t, tension = Fin te, comfort = Fin c\<rparr>"

definition example_seed :: EpisodeSeed where
  "example_seed = \<lparr>characters = [''emma'', ''jake''], vibe = ''ember'',
     seed_setting = ''coffee shop'', importSeed = None, previousEnding = None,
     seed_callbacks = None, seed_openLoops = None\<rparr>"

definition example_state :: StoryState where
  "example_state =
     \<lparr>episode = \<lparr>actPath = [Act1], scenes = [],
                  loveGraph = [(''emma-jake'', initialPair)],
                  activeVibe = ''ember'', setting = ''coffee shop''\<rparr>,
      currentScene = \<lparr>scene_act = Act1, scene_index = 0, endedReason = None,
                       majorNudges = 0, minorNudges = 0\<rparr>,
      spotlight = (Some ''emma'', Some ''jake''),
      recentLines = [], openLoops = [], callbacks = [], pendingNudges = [],
      recoveryBias = None, plateauCounter = 0, lastMajorNudgeExchange = 0\<rparr>"

definition example_engine :: Engine where
  "example_engine = \<lparr>currentState = Some example_state, exchangeCounter = 0, telemetryBuffer = []\<rparr>"

definition example_line :: "string \<Rightarrow> real \<Rightarrow> real \<Rightarrow> real \<Rightarrow> real \<Rightarrow> FinalLine" where
  "example_line who a t te c = \<lparr>fl_speaker = who, fl_text = ''well'', used_tokens = [],
     fl_deltas = finite_chem a t te c\<rparr>"

definition example_spoken :: "string \<Rightarrow> real \<Rightarrow> real \<Rightarrow> real \<Rightarrow> real \<Rightarrow> SpokenLine" where
  "example_spoken who a t te c = \<lparr>speaker = who, line_text = ''well'', secs = 0.4,
     deltas = finite_chem a t te c\<rparr>"

definition warm_lines :: "FinalLine list" where
  "warm_lines = [example_line ''emma'' 0.12 0 0.15 0, example_line ''jake'' 0.12 0 0.15 0]"

definition spark_lines :: "FinalLine list" where
  "spark_lines = [example_line ''emma'' 0.12 0.1 0.15 0, example_line ''jake'' 0 0 0 0]"

definition warm_engine :: Engine where
  "warm_engine =
     \<lparr>currentState = Some (example_state
        \<lparr>episode := (episode example_state)\<lparr>loveGraph :=
            [(''emma-jake'', finite_chem 0.34 0.1 0.5 0.1)]\<rparr>,
         recentLines := [example_spoken ''emma'' 0.12 0 0.15 0,
                         example_spoken ''jake'' 0.12 0 0.15 0]\<rparr>),
      exchangeCounter = 1, telemetryBuffer = []\<rparr>"

definition spark_transitions :: "SceneTransitionEvent list" where
  "spark_transitions =
     [\<lparr>from_act = Act1, from_scene = 0, to_act = Act2, to_scene = 1, reason = EndCheckpoint\<rparr>,
      \<lparr>from_act = Act2, from_scene = 1, to_act = Act3, to_scene = 2, reason = EndCheckpoint\<rparr>]"

definition spark_state :: StoryState where
  "spark_state =
     \<lparr>episode = \<lparr>actPath = [Act1, Act2, Act3],
                  scenes = [\<lparr>scene_act = Act1, scene_index = 0, endedReason = Some EndCheckpoint,
                             majorNudges = 0, minorNudges = 0\<rparr>,
                            \<lparr>scene_act = Act2, scene_index = 1, endedReason = Some EndCheckpoint,
                             majorNudges = 0, minorNudges = 0\<rparr>],
                  loveGraph = [(''emma-jake'', finite_chem 0.46 0.2 0.65 0.1)],
                  activeVibe = ''ember'', setting = ''coffee shop''\<rparr>,
      currentScene = \<lparr>scene_act = Act3, scene_index = 2, endedReason = None,
                       majorNudges = 0, minorNudges = 0\<rparr>,
      spotlight = (Some ''emma'', Some ''jake''),
      recentLines = [example_spoken ''emma'' 0.12 0 0.15 0, example_spoken ''jake'' 0.12 0 0.15 0,
                     example_spoken ''emma'' 0.12 0.1 0.15 0, example_spoken ''jake'' 0 0 0 0],
      openLoops = [], callbacks = [], pendingNudges = [],
      recoveryBias = None, plateauCounter = 1, lastMajorNudgeExchange = 0\<rparr>"

definition spark_result :: TickResult where
  "spark_result =
     \<lparr>producedLines = [example_spoken ''emma'' 0.12 0.1 0.15 0, example_spoken ''jake'' 0 0 0 0],
      updatedSummary =
        \<lparr>sum_act = Some Act3, sum_scene = 2,
         sum_spotlight = (Some ''emma'', Some ''jake''), sum_openLoops = [],
         lastLines = [example_spoken ''jake'' 0.12 0 0.15 0,
                      example_spoken ''emma'' 0.12 0.1 0.15 0, example_spoken ''jake'' 0 0 0 0],
         loveGraphSnapshot = [(''emma-jake'', finite_chem 0.46 0.2 0.65 0.1)]\<rparr>,
      transitions = spark_transitions,
      telemetryEvents =
        [TurnStart (Some Act1) 0,
         SceneTransition (spark_transitions ! 0),
         MetricTick ''plateau_detected'' (Fin 1),
         SceneTransition (spark_transitions ! 1),
         MetricTick ''plateau_detected'' (Fin 1),
         MetricTick ''exchange_counter'' (Fin 2),
         MetricTick ''plateau_counter'' (Fin 1),
         MetricTick ''active_callbacks'' (Fin 0),
         MetricTick ''love_graph_attraction'' (Fin 0.46),
         TurnEnd (example_spoken ''emma'' 0.12 0.1 0.15 0),
         TurnEnd (example_spoken ''jake'' 0 0 0 0)]\<rparr>"

definition spark_engine :: Engine where
  "spark_engine = \<lparr>currentState = Some spark_state, exchangeCounter = 2, telemetryBuffer = []\<rparr>"

definition example_major :: Nudge where
  "example_major = \<lparr>ntype = Comfort, intensity = Major, nsource = Observer,
                     target = None, token = None\<rparr>"

definition newEvaluationEngine :: EvaluationEngine where
  "newEvaluationEngine = \<lparr>rollingWindow = [], recentDeltas = [], evaluationSnapshots = [],
     majorNudgeCount = 0, lastMajorNudgeTime = 0, eval_exchangeCounter = 0\<rparr>"

definition example_evaluation_state :: EvaluationState where
  "example_evaluation_state = \<lparr>structural_act = Act1, callbackActivity = []\<rparr>"

definition no_embedding :: "Nudge \<Rightarrow> real option" where
  "no_embedding n = None"

definition example_recommendation :: EvaluationRecommendation where
  "example_recommendation =
     \<lparr>autoNudge = Some \<lparr>ntype = Comfort, intensity = Minor, nsource = Auto,
                         target = None, token = None\<rparr>,
      rec_rationales = [''Standard progression nudge''],
      rec_scores = \<lparr>freshnessGain = 0.62, coherenceCost = 0.075,
                    fragilityIndex = 0.16, finalScore = 0.57842\<rparr>,
      abstain = False\<rparr>"

definition lonely_spark_state :: StoryState where
  "lonely_spark_state = example_state\<lparr>episode := (episode example_state)\<lparr>loveGraph :=
      [(''emma-jake'', finite_chem 0.45 0.2 0.3 0.2)]\<rparr>\<rparr>"

definition watcher_state :: StoryState where
  "watcher_state = example_state\<lparr>episode := (episode example_state)\<lparr>loveGraph :=
      [(''emma-jake'', initialPair), (''emma-noah'', initialPair), (''jake-noah'', initialPair)]\<rparr>\<rparr>"




section \<open>The love graph and the unit interval\<close>

text \<open>
  The clamp brings every number but \<open>NaN\<close> into the interval from 0 to 1, so the updates
  keep a love graph in the unit interval whenever the line's deltas hold no \<open>NaN\<close>.
\<close>

lemma unit_num_Fin: "unit_num x \<longleftrightarrow> (\<exists>v. x = Fin v \<and> 0 \<le> v \<and> v \<le> 1)"
  by (cases x) (auto simp: unit_num_def)

lemma clamp01_range: "x \<noteq> NaN \<Longrightarrow> unit_num (clamp01 x)"
  by (cases x) (auto simp: clamp01_def unit_num_def)

lemma clamp01_unit: "unit_num x \<Longrightarrow> clamp01 x = x"
  by (auto simp: unit_num_Fin clamp01_def)

lemma jadd_Fin_no_nan: "y \<noteq> NaN \<Longrightarrow> jadd (Fin a) y \<noteq> NaN"
  by (cases y) auto

lemma jsub_Fin_no_nan: "y \<noteq> NaN \<Longrightarrow> jsub (Fin a) y \<noteq> NaN"
  by (cases y) auto

lemma jmul_const_no_nan: "x \<noteq> NaN \<Longrightarrow> c \<noteq> 0 \<Longrightarrow> jmul x (Fin c) \<noteq> NaN"
  by (cases x) auto

lemma jneg_no_nan: "x \<noteq> NaN \<Longrightarrow> jneg x \<noteq> NaN"
  by (cases x) auto

lemma unit_clamp_pair: "no_nan p \<Longrightarrow> unit_pair (clamp_pair p)"
  by (simp add: unit_pair_def clamp_pair_def no_nan_def clamp01_range)

lemma unit_pair_Fin:
  "unit_pair p \<Longrightarrow> \<exists>a t te c. p = \<lparr>attraction = Fin a, trust = Fin t, tension = Fin te, comfort = Fin c\<rparr>"
  by (cases p) (auto simp: unit_pair_def unit_num_Fin)

lemma unit_added:
  assumes "unit_pair p" and "no_nan d"
  shows "unit_pair (clamp_pair \<lparr>attraction = jadd (attraction p) (attraction d),
                               trust = jadd (trust p) (trust d),
                               tension = jadd (tension p) (tension d),
                               comfort = jadd (comfort p) (comfort d)\<rparr>)"
proof -
  from unit_pair_Fin[OF assms(1)] obtain a t te c where
    "p = \<lparr>attraction = Fin a, trust = Fin t, tension = Fin te, comfort = Fin c\<rparr>" by blast
  with assms(2) show ?thesis
    by (intro unit_clamp_pair) (simp add: no_nan_def jadd_Fin_no_nan)
qed

lemma unit_ripple_pair:
  assumes "unit_pair p" and "no_nan d"
  shows "unit_pair (ripple_pair d p)"
proof -
  from unit_pair_Fin[OF assms(1)] obtain a t te c where
    p: "p = \<lparr>attraction = Fin a, trust = Fin t, tension = Fin te, comfort = Fin c\<rparr>" by blast
  from assms(2) have
    "jadd (Fin a) (jmul (attraction d) (Fin 0.1)) \<noteq> NaN"
    "jadd (Fin c) (jmul (comfort d) (Fin 0.1)) \<noteq> NaN"
    "jadd (Fin te) (jmul (jmul (tension d) (Fin 0.1)) (Fin 0.5)) \<noteq> NaN"
    "jsub (Fin t) (jmul (jmul (tension d) (Fin 0.1)) (Fin 0.3)) \<noteq> NaN"
    by (simp_all add: no_nan_def jadd_Fin_no_nan jneg_no_nan jmul_const_no_nan)
  then show ?thesis
    unfolding ripple_pair_def Let_def p
    by (auto intro!: unit_clamp_pair simp: no_nan_def)
qed

lemma unit_graph_put: "unit_graph g \<Longrightarrow> unit_pair v \<Longrightarrow> unit_graph (graph_put k v g)"
  by (induction g) (auto simp: unit_graph_def)

lemma unit_graph_ripple:
  "unit_graph g \<Longrightarrow> no_nan d \<Longrightarrow>
   unit_graph (map (\<lambda>(pairKey, pair). if pairKey = key then (pairKey, pair)
                      else (pairKey, ripple_pair d pair)) g)"
  by (induction g) (auto simp: unit_graph_def unit_ripple_pair split: if_splits)

lemma map_of_unit: "unit_graph g \<Longrightarrow> map_of g k = Some p \<Longrightarrow> unit_pair p"
  by (induction g) (auto simp: unit_graph_def split: if_splits)

lemma unit_applyRippleEffects:
  "unit_graph (loveGraph (episode st)) \<Longrightarrow> no_nan (deltas line) \<Longrightarrow>
   unit_graph (loveGraph (episode (applyRippleEffects line key st)))"
  by (simp add: applyRippleEffects_def unit_graph_ripple)

lemma unit_updateLoveGraph:
  assumes "unit_graph (loveGraph (episode st))" and "no_nan (deltas line)"
  shows "unit_graph (loveGraph (episode (updateLoveGraph line st)))"
proof (cases "map_of (loveGraph (episode st)) (join_dash (sort_pair (spotlight st)))")
  case None
  with assms show ?thesis
    by (simp add: updateLoveGraph_def Let_def sortSpotlight_def)
next
  case (Some cur)
  from map_of_unit[OF assms(1) Some] assms(2) have
    "unit_pair (clamp_pair \<lparr>attraction = jadd (attraction cur) (attraction (deltas line)),
                             trust = jadd (trust cur) (trust (deltas line)),
                             tension = jadd (tension cur) (tension (deltas line)),
                             comfort = jadd (comfort cur) (comfort (deltas line))\<rparr>)"
    by (rule unit_added)
  with assms Some show ?thesis
    by (simp add: updateLoveGraph_def Let_def sortSpotlight_def unit_graph_put
          unit_applyRippleEffects)
qed

lemma unit_initialPair: "unit_pair initialPair"
  by (simp add: unit_pair_def unit_num_def initialPair_def)

lemma unit_init_pairs_of:
  "unit_graph g \<Longrightarrow> unit_graph (init_pairs_of ci rest g)"
  by (induction rest arbitrary: g) (simp_all add: unit_graph_put unit_initialPair)

lemma unit_init_graph: "unit_graph g \<Longrightarrow> unit_graph (init_graph cs g)"
  by (induction cs arbitrary: g) (simp_all add: unit_init_pairs_of)

lemma map_of_ripple:
  "map_of (map (\<lambda>(pairKey, pair). if pairKey = key then (pairKey, pair)
                  else (pairKey, ripple_pair d pair)) g) k
   = (if k = key then map_of g k else map_option (ripple_pair d) (map_of g k))"
  by (induction g) auto

section \<open>What each method leaves unchanged\<close>

lemma processLine_fields [simp]:
  "episode (snd (processLine fl st)) = episode st"
  "lastMajorNudgeExchange (snd (processLine fl st)) = lastMajorNudgeExchange st"
  "spotlight (snd (processLine fl st)) = spotlight st"
  "currentScene (snd (processLine fl st)) = currentScene st"
  by (simp_all add: processLine_def Let_def)

lemma sortSpotlight_fields [simp]:
  "episode (sortSpotlight st) = episode st"
  "lastMajorNudgeExchange (sortSpotlight st) = lastMajorNudgeExchange st"
  "recentLines (sortSpotlight st) = recentLines st"
  "callbacks (sortSpotlight st) = callbacks st"
  "currentScene (sortSpotlight st) = currentScene st"
  "getCurrentAct (sortSpotlight st) = getCurrentAct st"
  by (simp_all add: sortSpotlight_def getCurrentAct_def)

lemma applyRippleEffects_fields [simp]:
  "actPath (episode (applyRippleEffects line k st)) = actPath (episode st)"
  "lastMajorNudgeExchange (applyRippleEffects line k st) = lastMajorNudgeExchange st"
  "recentLines (applyRippleEffects line k st) = recentLines st"
  "callbacks (applyRippleEffects line k st) = callbacks st"
  "spotlight (applyRippleEffects line k st) = spotlight st"
  by (simp_all add: applyRippleEffects_def)

lemma updateLoveGraph_fields [simp]:
  "actPath (episode (updateLoveGraph line st)) = actPath (episode st)"
  "lastMajorNudgeExchange (updateLoveGraph line st) = lastMajorNudgeExchange st"
  "recentLines (updateLoveGraph line st) = recentLines st"
  "callbacks (updateLoveGraph line st) = callbacks st"
  by (simp_all add: updateLoveGraph_def Let_def split: option.splits)

lemma checkPlateau_fields [simp]:
  "episode (snd (checkPlateau st)) = episode st"
  "lastMajorNudgeExchange (snd (checkPlateau st)) = lastMajorNudgeExchange st"
  by (simp_all add: checkPlateau_def Let_def)

lemma advanceAct_fields [simp]:
  "actPath (episode (snd (advanceAct c st))) = actPath (episode st) @ [toAct c]"
  "loveGraph (episode (snd (advanceAct c st))) = loveGraph (episode st)"
  "lastMajorNudgeExchange (snd (advanceAct c st)) = lastMajorNudgeExchange st"
  "from_act (fst (advanceAct c st)) = fromAct c"
  "to_act (fst (advanceAct c st)) = toAct c"
  by (simp_all add: advanceAct_def Let_def)

lemma updateRecoveryBias_fields [simp]:
  "episode (updateRecoveryBias st) = episode st"
  "lastMajorNudgeExchange (updateRecoveryBias st) = lastMajorNudgeExchange st"
  by (simp_all add: updateRecoveryBias_def split: option.splits)

lemma processPendingNudges_fields [simp]:
  "episode (processPendingNudges st) = episode st"
  "lastMajorNudgeExchange (processPendingNudges st) = lastMajorNudgeExchange st"
  by (simp_all add: processPendingNudges_def)

lemma emitMetrics_fields [simp]:
  "episode (snd (emitMetrics n st)) = episode st"
  "lastMajorNudgeExchange (snd (emitMetrics n st)) = lastMajorNudgeExchange st"
  by (simp_all add: emitMetrics_def Let_def)

lemma line_state_fields [simp]:
  "actPath (episode (line_state fl st)) = actPath (episode st)"
  "lastMajorNudgeExchange (line_state fl st) = lastMajorNudgeExchange st"
  "getCurrentAct (line_state fl st) = getCurrentAct st"
  by (simp_all add: line_state_def getCurrentAct_def)

lemma processLine_deltas [simp]: "deltas (fst (processLine fl st)) = fl_deltas fl"
  by (simp add: processLine_def Let_def)

lemma unit_line_state:
  "unit_graph (loveGraph (episode st)) \<Longrightarrow> no_nan (fl_deltas fl) \<Longrightarrow>
   unit_graph (loveGraph (episode (line_state fl st)))"
  by (simp add: line_state_def unit_updateLoveGraph)

section \<open>The checkpoint detector\<close>

lemma checkActAdvancement_Some:
  assumes "checkActAdvancement st = Some c"
  shows "getCurrentAct st = Some (fromAct c) \<and> act_num (toAct c) = Suc (act_num (fromAct c))"
proof -
  obtain a where a: "getCurrentAct st = Some a"
    using assms by (auto simp: checkActAdvancement_def split: option.splits)
  obtain c' where c': "find (\<lambda>c. fromAct c = a) checkpoints = Some c'"
    using assms a by (auto simp: checkActAdvancement_def split: option.splits)
  have "c = c'"
    using assms a c'
    by (auto simp: checkActAdvancement_def Let_def split: option.splits CheckpointType.splits if_splits)
  moreover have "fromAct c' = a \<and> act_num (toAct c') = Suc (act_num (fromAct c'))"
    using c' by (cases a) (auto simp: checkpoints_def)
  ultimately show ?thesis using a by simp
qed

lemma find_act1: "find (\<lambda>c. fromAct c = Act1) checkpoints
   = Some \<lparr>cp_type = mutual_spark, fromAct = Act1, toAct = Act2\<rparr>"
  by (simp add: checkpoints_def)

lemma check_act1:
  "getCurrentAct st = Some Act1 \<Longrightarrow>
   checkActAdvancement st = (if mutual_spark_ready st
      then Some \<lparr>cp_type = mutual_spark, fromAct = Act1, toAct = Act2\<rparr> else None)"
  by (auto simp: checkActAdvancement_def find_act1 mutual_spark_ready_def Let_def
        split: option.splits)

section \<open>The loop over the produced lines\<close>

lemma tick_line_state:
  "loop_state (tick_line fl a) =
     snd (checkPlateau (case checkActAdvancement (line_state fl (loop_state a)) of
            None \<Rightarrow> sortSpotlight (line_state fl (loop_state a))
          | Some c \<Rightarrow> snd (advanceAct c (sortSpotlight (line_state fl (loop_state a))))))"
  by (simp add: tick_line_def line_state_def Let_def split_def split: option.splits)

lemma tick_line_transitions:
  "loop_transitions (tick_line fl a) =
     loop_transitions a @ (case checkActAdvancement (line_state fl (loop_state a)) of
            None \<Rightarrow> []
          | Some c \<Rightarrow> [fst (advanceAct c (sortSpotlight (line_state fl (loop_state a))))])"
  by (simp add: tick_line_def line_state_def Let_def split_def split: option.splits)

lemma tick_line_lines:
  "loop_lines (tick_line fl a) = loop_lines a @ [fst (processLine fl (loop_state a))]"
  by (simp add: tick_line_def Let_def split_def split: option.splits)

lemma tick_line_lastMajor [simp]:
  "lastMajorNudgeExchange (loop_state (tick_line fl a)) = lastMajorNudgeExchange (loop_state a)"
  by (simp add: tick_line_state split: option.splits)

lemma tick_lines_lastMajor [simp]:
  "lastMajorNudgeExchange (loop_state (tick_lines fls a)) = lastMajorNudgeExchange (loop_state a)"
  by (induction fls arbitrary: a) simp_all

lemma tick_line_unit:
  "unit_graph (loveGraph (episode (loop_state a))) \<Longrightarrow> no_nan (fl_deltas fl) \<Longrightarrow>
   unit_graph (loveGraph (episode (loop_state (tick_line fl a))))"
  by (simp add: tick_line_state unit_line_state split: option.splits)

lemma tick_lines_unit:
  "unit_graph (loveGraph (episode (loop_state a))) \<Longrightarrow>
   list_all (\<lambda>fl. no_nan (fl_deltas fl)) fls \<Longrightarrow>
   unit_graph (loveGraph (episode (loop_state (tick_lines fls a))))"
  by (induction fls arbitrary: a) (simp_all add: tick_line_unit)

lemma successively_snoc:
  "p \<noteq> [] \<Longrightarrow> successively R (p @ [x]) = (successively R p \<and> R (last p) x)"
  by (induction p rule: induct_list012) (auto simp: successively_Cons)

lemma path_ok_snoc:
  "path_ok p \<Longrightarrow> act_num x = Suc (act_num (last p)) \<Longrightarrow> path_ok (p @ [x])"
  by (simp add: path_ok_def successively_snoc)

lemma tick_line_path:
  assumes "path_ok (actPath (episode (loop_state a)))"
  shows "path_ok (actPath (episode (loop_state (tick_line fl a))))"
proof (cases "checkActAdvancement (line_state fl (loop_state a))")
  case None
  then show ?thesis using assms by (simp add: tick_line_state)
next
  case (Some c)
  from checkActAdvancement_Some[OF Some]
  have "last_act (actPath (episode (loop_state a))) = Some (fromAct c)"
    and n: "act_num (toAct c) = Suc (act_num (fromAct c))"
    by (simp_all add: getCurrentAct_def)
  then have "last (actPath (episode (loop_state a))) = fromAct c"
    by (simp add: last_act_def split: if_splits)
  with n assms Some show ?thesis
    by (simp add: tick_line_state path_ok_snoc)
qed

lemma tick_lines_path:
  "path_ok (actPath (episode (loop_state a))) \<Longrightarrow>
   path_ok (actPath (episode (loop_state (tick_lines fls a))))"
  by (induction fls arbitrary: a) (simp_all add: tick_line_path)

lemma tick_lines_transitions_length:
  "length (loop_transitions (tick_lines fls a)) \<le> length (loop_transitions a) + length fls"
proof (induction fls arbitrary: a)
  case Nil
  show ?case by simp
next
  case (Cons fl fls)
  have "length (loop_transitions (tick_line fl a)) \<le> length (loop_transitions a) + 1"
    by (simp add: tick_line_transitions split: option.splits)
  with Cons[of "tick_line fl a"] show ?case by simp
qed

lemma tick_lines_lines_length:
  "length (loop_lines (tick_lines fls a)) = length (loop_lines a) + length fls"
  by (induction fls arbitrary: a) (simp_all add: tick_line_lines)

lemma tick_line_transitions_step:
  "(\<forall>t\<in>set (loop_transitions a). act_num (to_act t) = Suc (act_num (from_act t))) \<Longrightarrow>
   (\<forall>t\<in>set (loop_transitions (tick_line fl a)). act_num (to_act t) = Suc (act_num (from_act t)))"
  by (auto simp: tick_line_transitions dest: checkActAdvancement_Some[OF sym] split: option.splits)

lemma tick_lines_transitions_step:
  "(\<forall>t\<in>set (loop_transitions a). act_num (to_act t) = Suc (act_num (from_act t))) \<Longrightarrow>
   (\<forall>t\<in>set (loop_transitions (tick_lines fls a)). act_num (to_act t) = Suc (act_num (from_act t)))"
proof (induction fls arbitrary: a)
  case Nil then show ?case by simp
next
  case (Cons fl fls)
  from Cons.IH[OF tick_line_transitions_step[OF Cons.prems]] show ?case by simp
qed

lemma tick_line_nonempty:
  "actPath (episode (loop_state a)) \<noteq> [] \<Longrightarrow> actPath (episode (loop_state (tick_line fl a))) \<noteq> []"
  by (simp add: tick_line_state split: option.splits)

lemma tick_lines_nonempty:
  "actPath (episode (loop_state a)) \<noteq> [] \<Longrightarrow> actPath (episode (loop_state (tick_lines fls a))) \<noteq> []"
  by (induction fls arbitrary: a) (simp_all add: tick_line_nonempty)

section \<open>Single calls\<close>

lemma tick_active:
  assumes "currentState e = Some st"
  shows "\<exists>st'. currentState (snd (tick g e)) = Some st'
           \<and> exchangeCounter (snd (tick g e)) = exchangeCounter e + 1
           \<and> lastMajorNudgeExchange st' = lastMajorNudgeExchange st
           \<and> (actPath (episode st) \<noteq> [] \<longrightarrow> actPath (episode st') \<noteq> [])
           \<and> (path_ok (actPath (episode st)) \<longrightarrow> path_ok (actPath (episode st')))
           \<and> (unit_graph (loveGraph (episode st)) \<and> call_no_nan (CallTick g) \<longrightarrow>
                unit_graph (loveGraph (episode st')))"
  using assms
  by (auto simp: tick_def Let_def split_def emitTelemetry_def buildEpisodeSummary_def
        intro!: tick_lines_path tick_lines_unit tick_lines_nonempty
        split: option.splits sum.splits)

lemma tick_inactive: "currentState e = None \<Longrightarrow> tick g e = (Inl NoActiveEpisode, e)"
  by (simp add: tick_def)

lemma tick_transitions:
  "fst (tick g e) = Inr r \<Longrightarrow>
   (\<exists>fls a. g = Some fls \<and> transitions r = loop_transitions (tick_lines fls a)
       \<and> producedLines r = loop_lines (tick_lines fls a)
       \<and> loop_transitions a = [] \<and> loop_lines a = [])"
  by (auto simp: tick_def Let_def split_def buildEpisodeSummary_def
        split: option.splits sum.splits)

lemma applyNudge_active:
  assumes "currentState e = Some st"
  shows "\<exists>st'. currentState (snd (applyNudge s n e)) = Some st'
           \<and> exchangeCounter (snd (applyNudge s n e)) = exchangeCounter e
           \<and> episode st' = episode st
           \<and> lastMajorNudgeExchange st \<le> lastMajorNudgeExchange st'"
  using assms
  by (auto simp: applyNudge_def Let_def emitTelemetry_def split: option.splits bool.splits)

lemma applyNudge_inactive: "currentState e = None \<Longrightarrow> applyNudge s n e = (Inr False, e)"
  by (simp add: applyNudge_def)

lemma applyNudge_major_accepted:
  assumes "currentState e = Some st" "intensity n = Major" "fst (applyNudge s n e) = Inr True"
  shows "\<exists>st'. currentState (snd (applyNudge s n e)) = Some st'
           \<and> exchangeCounter (snd (applyNudge s n e)) = exchangeCounter e
           \<and> lastMajorNudgeExchange st' = exchangeCounter e
           \<and> actPath (episode st') = actPath (episode st)
           \<and> actPath (episode st) \<noteq> []
           \<and> 6 \<le> exchangeCounter e - lastMajorNudgeExchange st"
  using assms
  by (auto simp: applyNudge_def Let_def emitTelemetry_def getCurrentAct_def last_act_def
        split: option.splits bool.splits if_splits)

lemma applyNudge_major_cooldown:
  assumes "currentState e = Some st" "actPath (episode st) \<noteq> []" "intensity n = Major"
    "exchangeCounter e - lastMajorNudgeExchange st < 6"
  shows "fst (applyNudge s n e) = Inr False"
  using assms
  by (auto simp: applyNudge_def Let_def getCurrentAct_def last_act_def split: option.splits)

lemma startEpisode_state:
  "\<exists>st. currentState (snd (startEpisode seed e)) = Some st
      \<and> exchangeCounter (snd (startEpisode seed e)) = 0
      \<and> lastMajorNudgeExchange st = 0
      \<and> actPath (episode st) = [Act1]
      \<and> loveGraph (episode st) = init_graph (characters seed) []"
  by (simp add: startEpisode_def Let_def importSeedContext_def split: option.splits)

section \<open>Sequences of calls\<close>

lemma run_active:
  assumes "currentState e = Some st" "\<forall>c\<in>set cs. \<not> is_start c"
  shows "\<exists>st'. currentState (run cs e) = Some st'
           \<and> exchangeCounter (run cs e) = exchangeCounter e + int (ticks cs)
           \<and> lastMajorNudgeExchange st \<le> lastMajorNudgeExchange st'
           \<and> (actPath (episode st) \<noteq> [] \<longrightarrow> actPath (episode st') \<noteq> [])"
  using assms
proof (induction cs arbitrary: e st)
  case Nil
  then show ?case by (simp add: ticks_def)
next
  case (Cons c cs)
  show ?case
  proof (cases c)
    case (CallStart seed)
    with Cons.prems show ?thesis by simp
  next
    case (CallNudge s n)
    from applyNudge_active[OF Cons.prems(1), of s n] obtain st1 where
      st1: "currentState (snd (applyNudge s n e)) = Some st1"
        "exchangeCounter (snd (applyNudge s n e)) = exchangeCounter e"
        "episode st1 = episode st"
        "lastMajorNudgeExchange st \<le> lastMajorNudgeExchange st1" by blast
    from Cons.IH[OF st1(1)] Cons.prems(2) obtain st' where
      "currentState (run cs (snd (applyNudge s n e))) = Some st'"
      "exchangeCounter (run cs (snd (applyNudge s n e)))
         = exchangeCounter (snd (applyNudge s n e)) + int (ticks cs)"
      "lastMajorNudgeExchange st1 \<le> lastMajorNudgeExchange st'"
      "actPath (episode st1) \<noteq> [] \<longrightarrow> actPath (episode st') \<noteq> []" by auto
    with st1 CallNudge show ?thesis by (simp add: ticks_def)
  next
    case (CallTick g)
    from tick_active[OF Cons.prems(1), of g] obtain st1 where
      st1: "currentState (snd (tick g e)) = Some st1"
        "exchangeCounter (snd (tick g e)) = exchangeCounter e + 1"
        "lastMajorNudgeExchange st1 = lastMajorNudgeExchange st"
        "actPath (episode st) \<noteq> [] \<longrightarrow> actPath (episode st1) \<noteq> []" by blast
    from Cons.IH[OF st1(1)] Cons.prems(2) obtain st' where
      "currentState (run cs (snd (tick g e))) = Some st'"
      "exchangeCounter (run cs (snd (tick g e)))
         = exchangeCounter (snd (tick g e)) + int (ticks cs)"
      "lastMajorNudgeExchange st1 \<le> lastMajorNudgeExchange st'"
      "actPath (episode st1) \<noteq> [] \<longrightarrow> actPath (episode st') \<noteq> []" by auto
    with st1 CallTick show ?thesis by (simp add: ticks_def)
  qed
qed

lemma step_ok: "engine_ok e \<Longrightarrow> engine_ok (step c e)"
proof (cases c)
  case (CallStart seed)
  from startEpisode_state[of seed e] show ?thesis
    by (auto simp: engine_ok_def CallStart path_ok_def)
next
  case (CallNudge s n)
  assume ok: "engine_ok e"
  show ?thesis
  proof (cases "currentState e")
    case None
    then show ?thesis using ok by (simp add: CallNudge applyNudge_inactive)
  next
    case (Some st)
    from applyNudge_active[OF Some, of s n] ok Some show ?thesis
      by (auto simp: engine_ok_def CallNudge)
  qed
next
  case (CallTick g)
  assume ok: "engine_ok e"
  show ?thesis
  proof (cases "currentState e")
    case None
    then show ?thesis using ok by (simp add: CallTick tick_inactive)
  next
    case (Some st)
    from tick_active[OF Some, of g] ok Some show ?thesis
      by (auto simp: engine_ok_def CallTick)
  qed
qed

lemma step_unit: "engine_unit e \<Longrightarrow> call_no_nan c \<Longrightarrow> engine_unit (step c e)"
proof (cases c)
  case (CallStart seed)
  have "unit_graph (init_graph (characters seed) [])"
    by (rule unit_init_graph) (simp add: unit_graph_def)
  with startEpisode_state[of seed e] show ?thesis
    by (auto simp: engine_unit_def CallStart)
next
  case (CallNudge s n)
  assume ok: "engine_unit e"
  show ?thesis
  proof (cases "currentState e")
    case None
    then show ?thesis using ok by (simp add: CallNudge applyNudge_inactive)
  next
    case (Some st)
    from applyNudge_active[OF Some, of s n] ok Some show ?thesis
      by (auto simp: engine_unit_def CallNudge)
  qed
next
  case (CallTick g)
  assume ok: "engine_unit e" and fin: "call_no_nan c"
  show ?thesis
  proof (cases "currentState e")
    case None
    then show ?thesis using ok by (simp add: CallTick tick_inactive)
  next
    case (Some st)
    from tick_active[OF Some, of g] ok fin Some show ?thesis
      by (auto simp: engine_unit_def CallTick)
  qed
qed

lemma run_ok: "engine_ok e \<Longrightarrow> engine_ok (run cs e)"
  by (induction cs arbitrary: e) (simp_all add: step_ok)

text \<open>
  As long as no line carries a \<open>NaN\<close> delta, every update keeps the love graph in the unit
  interval, and so does every sequence of calls.
\<close>

lemma run_unit: "engine_unit e \<Longrightarrow> list_all call_no_nan cs \<Longrightarrow> engine_unit (run cs e)"
  by (induction cs arbitrary: e) (simp_all add: step_unit)

lemma newEngine_ok: "engine_ok newEngine"
  by (simp add: engine_ok_def newEngine_def)

lemma newEngine_unit: "engine_unit newEngine"
  by (simp add: engine_unit_def newEngine_def)

lemma love_graph_unit_without_nan:
  assumes "list_all call_no_nan cs" and "currentState (run cs newEngine) = Some st"
  shows "unit_graph (loveGraph (episode st))"
  using run_unit[OF newEngine_unit assms(1)] assms(2) by (simp add: engine_unit_def)

lemma successively_sorted:
  assumes "successively (\<lambda>a b. act_num b = Suc (act_num a)) p"
  shows "sorted (map act_num p)"
proof -
  have "successively (\<lambda>a b. act_num a \<le> act_num b) p"
    by (rule successively_mono[OF assms]) simp_all
  moreover have "transp (\<lambda>a b. act_num a \<le> act_num b)"
    by (auto simp: transp_def)
  ultimately have "sorted_wrt (\<lambda>a b. act_num a \<le> act_num b) p"
    by (simp add: successively_conv_sorted_wrt)
  then show ?thesis by (simp add: sorted_wrt_map)
qed

section \<open>Scoring\<close>

lemma scoreNudgeCandidate_formula:
  "score_formula (structural_act state) (scoreNudgeCandidate similarity cand state fragility ev)"
  by (simp add: score_formula_def scoreNudgeCandidate_def calculateLambda_def Let_def)

lemma score_candidates_snapshots:
  "score_candidates similarity state fragility cands (scored, ev) = (scored', ev') \<Longrightarrow>
   \<exists>new. evaluationSnapshots ev' = evaluationSnapshots ev @ new
      \<and> (\<forall>s\<in>set new. score_formula (structural_act state) (scores s)
                      \<and> fragilityIndex (scores s) = fragility_total fragility)
      \<and> map sc_scores scored' = map sc_scores scored @ map scores new
      \<and> map sc_nudge scored' = map sc_nudge scored @ map candidate new
      \<and> map candidate new = cands"
proof (induction cands arbitrary: scored ev)
  case Nil
  then show ?case by simp
next
  case (Cons c cands)
  let ?sc = "scoreNudgeCandidate similarity c state fragility ev"
  let ?snap = "\<lparr>candidate = c, scores = ?sc, rationales = generateRationales c ?sc state ev, chosen = False\<rparr>"
  from Cons.prems have "score_candidates similarity state fragility cands
      (scored @ [\<lparr>sc_nudge = c, sc_scores = ?sc, sc_rationales = generateRationales c ?sc state ev\<rparr>],
       ev\<lparr>evaluationSnapshots := evaluationSnapshots ev @ [?snap]\<rparr>) = (scored', ev')"
    by (simp add: Let_def)
  from Cons.IH[OF this] obtain new where
    new: "evaluationSnapshots ev' = (evaluationSnapshots ev @ [?snap]) @ new"
      "\<forall>s\<in>set new. score_formula (structural_act state) (scores s)
                      \<and> fragilityIndex (scores s) = fragility_total fragility"
      "map sc_scores scored' = (map sc_scores scored @ [?sc]) @ map scores new"
      "map sc_nudge scored' = (map sc_nudge scored @ [c]) @ map candidate new"
      "map candidate new = cands"
    by auto
  have "fragilityIndex ?sc = fragility_total fragility"
    by (simp add: scoreNudgeCandidate_def Let_def)
  with new show ?case
    by (intro exI[of _ "?snap # new"]) (simp add: scoreNudgeCandidate_formula)
qed

lemma mark_chosen_scores: "map scores (mark_chosen b xs) = map scores xs"
  by (induction xs) simp_all

lemma mark_chosen_candidate: "map candidate (mark_chosen b xs) = map candidate xs"
  by (induction xs) simp_all

lemma addToRollingWindow_snapshots [simp]:
  "evaluationSnapshots (addToRollingWindow l ev) = evaluationSnapshots ev"
  by (simp add: addToRollingWindow_def Let_def)

lemma weights_agree: "actCoherenceWeights a = coherenceWeight (actGates a)"
  by (cases a) simp_all

lemma considerNudge_scores:
  assumes "considerNudge similarity state lastLine ev = (recommendation, ev')"
  shows "\<exists>new. evaluationSnapshots ev' = evaluationSnapshots ev @ new
      \<and> map candidate new = generateNudgeCandidates state
      \<and> (\<forall>s\<in>set new. score_formula (structural_act state) (scores s))
      \<and> (autoNudge recommendation \<noteq> None \<longrightarrow>
            score_formula (structural_act state) (rec_scores recommendation))"
proof -
  let ?ev1 = "ev\<lparr>eval_exchangeCounter := eval_exchangeCounter ev + 1\<rparr>"
  let ?ev2 = "case lastLine of None \<Rightarrow> ?ev1 | Some line \<Rightarrow> addToRollingWindow line ?ev1"
  let ?fr = "calculateFragilityIndex ?ev2"
  let ?res = "score_candidates similarity state ?fr (generateNudgeCandidates state) ([], ?ev2)"
  have snaps2: "evaluationSnapshots ?ev2 = evaluationSnapshots ev"
    by (simp split: option.splits)
  obtain scored ev3 where res: "?res = (scored, ev3)" by (cases ?res)
  from score_candidates_snapshots[OF res] snaps2 obtain new where
    new: "evaluationSnapshots ev3 = evaluationSnapshots ev @ new"
      "\<forall>s\<in>set new. score_formula (structural_act state) (scores s)"
      "map sc_scores scored = map scores new"
      "map candidate new = generateNudgeCandidates state"
    by auto
  have best: "score_formula (structural_act state) (sc_scores b)"
    if "b \<in> set (sort_key (\<lambda>c. - finalScore (sc_scores c)) scored)" for b
  proof -
    from that have "sc_scores b \<in> set (map sc_scores scored)" by auto
    with new(2,3) show ?thesis by auto
  qed
  show ?thesis
  proof (cases "sort_key (\<lambda>c. - finalScore (sc_scores c)) scored")
    case Nil
    with assms res new show ?thesis
      by (auto simp: considerNudge_def Let_def)
  next
    case (Cons b others)
    then have fb: "score_formula (structural_act state) (sc_scores b)"
      using best[of b] by simp
    from assms res Cons have
      "(recommendation, ev') =
         (if finalScore (sc_scores b) < minScoreThreshold
          then (\<lparr>autoNudge = None,
                 rec_rationales = [''All candidates below minimum threshold'',
                                   ''Maintaining current trajectory''],
                 rec_scores = \<lparr>freshnessGain = 0, coherenceCost = 0,
                               fragilityIndex = fragility_total ?fr, finalScore = 0\<rparr>,
                 abstain = True\<rparr>, ev3)
          else if \<not> checkCadenceConstraints (sc_nudge b) ev3
          then (\<lparr>autoNudge = None,
                 rec_rationales = [if intensity (sc_nudge b) = Major
                                      \<and> eval_exchangeCounter ev3 - lastMajorNudgeTime ev3
                                          < majorNudgeCooldown
                                   then ''Major nudge cooldown''
                                   else ''Recovery period active - comfort/clarify nudges preferred'',
                                   ''Respecting nudge cadence limits''],
                 rec_scores = sc_scores b,
                 abstain = True\<rparr>, ev3)
          else (\<lparr>autoNudge = Some (sc_nudge b),
                 rec_rationales = sc_rationales b,
                 rec_scores = sc_scores b,
                 abstain = False\<rparr>,
                ev3\<lparr>evaluationSnapshots :=
                      take (length (evaluationSnapshots ?ev2)) (evaluationSnapshots ev3)
                      @ mark_chosen (sc_nudge b)
                          (drop (length (evaluationSnapshots ?ev2)) (evaluationSnapshots ev3))\<rparr>))"
      by (simp add: considerNudge_def Let_def)
    then consider
        (low) "autoNudge recommendation = None" "ev' = ev3"
      | (chosen) "rec_scores recommendation = sc_scores b"
          "evaluationSnapshots ev' = evaluationSnapshots ev @ mark_chosen (sc_nudge b) new"
      using new(1) snaps2 by (auto split: if_splits)
    then show ?thesis
    proof cases
      case low
      with new show ?thesis by auto
    next
      case chosen
      have "\<forall>s\<in>set (mark_chosen (sc_nudge b) new).
              score_formula (structural_act state) (scores s)"
      proof
        fix s assume "s \<in> set (mark_chosen (sc_nudge b) new)"
        then have "scores s \<in> set (map scores (mark_chosen (sc_nudge b) new))" by simp
        then have "scores s \<in> set (map scores new)" by (simp only: mark_chosen_scores)
        with new(2) show "score_formula (structural_act state) (scores s)" by auto
      qed
      with chosen fb new(4) show ?thesis
        by (intro exI[of _ "mark_chosen (sc_nudge b) new"]) (simp add: mark_chosen_candidate)
    qed
  qed
qed

section \<open>The examples evaluated\<close>

lemma example_start: "startEpisode example_seed newEngine =
   (Inr \<lparr>sum_act = Some Act1, sum_scene = 0, sum_spotlight = (Some ''emma'', Some ''jake''),
         sum_openLoops = [], lastLines = [], loveGraphSnapshot = [(''emma-jake'', initialPair)]\<rparr>,
    example_engine)"
  by code_simp

lemma example_warm_tick: "snd (tick (Some warm_lines) example_engine) = warm_engine"
  by code_simp

lemma example_spark_tick: "tick (Some spark_lines) warm_engine = (Inr spark_result, spark_engine)"
  by code_simp

lemma example_consider:
  "fst (considerNudge no_embedding example_evaluation_state None newEvaluationEngine)
     = example_recommendation"
  by code_simp

lemma example_run:
  "run [CallStart example_seed, CallTick (Some warm_lines), CallTick (Some spark_lines)] newEngine
     = spark_engine"
  by (simp add: example_start example_warm_tick example_spark_tick)

lemma example_warm_run:
  "run [CallStart example_seed, CallTick (Some warm_lines)] newEngine = warm_engine"
  by (simp add: example_start example_warm_tick)


section \<open>The claims\<close>


text \<open>
  Claim C2.  Every candidate that \<open>consider\<close> scores is logged with a final score equal to
  freshness gain minus \<open>\<lambda>\<close> times coherence cost, clamped to the interval from -1 to 1,
  where \<open>\<lambda>\<close> is the act's base coherence weight times \<open>0.6 + fragilityIndex * 1.2\<close>; the
  scores of a recommended nudge obey the same formula, and the evaluation engine's act
  weights are those of the act gates.
\<close>

theorem final_score_formula:
  "(\<exists>new. evaluationSnapshots (snd (considerNudge similarity state lastLine ev))
             = evaluationSnapshots ev @ new
      \<and> map candidate new = generateNudgeCandidates state
      \<and> list_all (\<lambda>s. score_formula (structural_act state) (scores s)) new)
   \<and> (autoNudge (fst (considerNudge similarity state lastLine ev)) \<noteq> None \<longrightarrow>
        score_formula (structural_act state)
          (rec_scores (fst (considerNudge similarity state lastLine ev))))
   \<and> actCoherenceWeights (structural_act state)
        = coherenceWeight (actGates (structural_act state))"
  using considerNudge_scores[OF prod.collapse[symmetric], of similarity state lastLine ev]
  by (auto simp: list_all_iff weights_agree)

text \<open>Claim C2 at a concrete input.\<close>

theorem final_score_formula_witness:
  "fst (considerNudge no_embedding example_evaluation_state None newEvaluationEngine)
     = example_recommendation
   \<and> score_formula Act1 (rec_scores example_recommendation)
   \<and> finalScore (rec_scores example_recommendation) = 0.62 - 0.7 * (0.6 + 0.16 * 1.2) * 0.075"
proof -
  have a: "autoNudge example_recommendation \<noteq> None"
    by (simp add: example_recommendation_def)
  have s: "structural_act example_evaluation_state = Act1"
    by (simp add: example_evaluation_state_def)
  from final_score_formula[of no_embedding example_evaluation_state None newEvaluationEngine]
  have "score_formula Act1 (rec_scores example_recommendation)"
    using a s by (simp add: example_consider)
  then show ?thesis
    by (simp add: example_consider) (simp add: example_recommendation_def)
qed

text \<open>
  Claim C3.  Within one episode, after a major nudge is accepted, a later major nudge is
  accepted only if at least 6 ticks lie between the two, and one submitted after fewer
  than 6 ticks returns false, whatever calls come in between.
\<close>

theorem major_nudges_six_exchanges_apart:
  assumes "currentState e = Some st"
    and "intensity n1 = Major" and "fst (applyNudge s1 n1 e) = Inr True"
    and "\<forall>c\<in>set mid. \<not> is_start c"
    and "intensity n2 = Major"
  shows "(fst (applyNudge s2 n2 (run mid (snd (applyNudge s1 n1 e)))) = Inr True \<longrightarrow> 6 \<le> ticks mid)
       \<and> (ticks mid < 6 \<longrightarrow> fst (applyNudge s2 n2 (run mid (snd (applyNudge s1 n1 e)))) = Inr False)"
proof -
  let ?e1 = "snd (applyNudge s1 n1 e)"
  from applyNudge_major_accepted[OF assms(1,2,3)] obtain st1 where
    st1: "currentState ?e1 = Some st1" "exchangeCounter ?e1 = exchangeCounter e"
      "lastMajorNudgeExchange st1 = exchangeCounter e" "actPath (episode st1) \<noteq> []"
    by auto
  from run_active[OF st1(1) assms(4)] st1 obtain st2 where
    st2: "currentState (run mid ?e1) = Some st2"
      "exchangeCounter (run mid ?e1) = exchangeCounter e + int (ticks mid)"
      "exchangeCounter e \<le> lastMajorNudgeExchange st2"
      "actPath (episode st2) \<noteq> []" by auto
  have a: "ticks mid < 6 \<Longrightarrow> fst (applyNudge s2 n2 (run mid ?e1)) = Inr False"
    using applyNudge_major_cooldown[OF st2(1) st2(4) assms(5), of s2] st2(2,3) by simp
  have b: "fst (applyNudge s2 n2 (run mid ?e1)) = Inr True \<Longrightarrow> 6 \<le> ticks mid"
    using a by (cases "ticks mid < 6") auto
  from a b show ?thesis by blast
qed

text \<open>Claim C3 at a concrete input.\<close>

theorem major_nudges_six_exchanges_apart_witness:
  "fst (applyNudge (Some True) example_major (example_engine\<lparr>exchangeCounter := 6\<rparr>)) = Inr True
   \<and> ticks [CallTick None, CallTick (Some []), CallTick None, CallTick None, CallTick None] = 5
   \<and> fst (applyNudge (Some True) example_major
        (run [CallTick None, CallTick (Some []), CallTick None, CallTick None, CallTick None]
           (snd (applyNudge (Some True) example_major (example_engine\<lparr>exchangeCounter := 6\<rparr>)))))
      = Inr False"
proof -
  let ?e = "example_engine\<lparr>exchangeCounter := 6\<rparr>"
  let ?mid = "[CallTick None, CallTick (Some []), CallTick None, CallTick None, CallTick None]"
  have a: "currentState ?e = Some example_state" by (simp add: example_engine_def)
  have b: "intensity example_major = Major" by (simp add: example_major_def)
  have c: "fst (applyNudge (Some True) example_major ?e) = Inr True"
    by (simp add: applyNudge_def example_engine_def example_state_def example_major_def
          getCurrentAct_def last_act_def emitTelemetry_def Let_def)
  have d: "\<forall>c\<in>set ?mid. \<not> is_start c" by simp
  have t: "ticks ?mid = 5" by (simp add: ticks_def)
  from major_nudges_six_exchanges_apart[OF a b c d b, of "Some True"] c t show ?thesis by simp
qed

text \<open>
  Claim C4.  A nudge whose type is in the blocked list of the current act's gate is
  rejected: \<open>applyNudge\<close> returns false and changes nothing, whatever the exchange
  counter, the last-major index, the recovery bias and the safety verdict are.
\<close>

theorem blocked_nudge_rejected:
  assumes "currentState e = Some st" and "getCurrentAct st = Some a"
    and "ntype n \<in> set (blockedNudges (actGates a))"
  shows "applyNudge isSafe n e = (Inr False, e)"
  using assms by (simp add: applyNudge_def)

text \<open>Claim C4 at a concrete input.\<close>

theorem blocked_nudge_rejected_witness:
  "currentState example_engine = Some example_state
   \<and> getCurrentAct example_state = Some Act1
   \<and> RaiseStakes \<in> set (blockedNudges (actGates Act1))
   \<and> applyNudge (Some True)
        \<lparr>ntype = RaiseStakes, intensity = Major, nsource = Observer, target = None, token = None\<rparr>
        (example_engine\<lparr>exchangeCounter := 100\<rparr>)
      = (Inr False, example_engine\<lparr>exchangeCounter := 100\<rparr>)"
proof -
  have a: "currentState (example_engine\<lparr>exchangeCounter := 100\<rparr>) = Some example_state"
    by (simp add: example_engine_def)
  have b: "getCurrentAct example_state = Some Act1"
    by (simp add: example_state_def getCurrentAct_def last_act_def)
  have c: "ntype \<lparr>ntype = RaiseStakes, intensity = Major, nsource = Observer, target = None,
                  token = None\<rparr> \<in> set (blockedNudges (actGates Act1))" by simp
  from blocked_nudge_rejected[OF a b c, of "Some True"] a b show ?thesis by (simp add: example_engine_def)
qed

text \<open>
  Claim C5.  In every state an engine reaches, the act path starts at act 1, each entry is
  exactly one act after the entry before it, and so the path never decreases; every
  transition a tick reports goes from an act to the next one.
\<close>

theorem act_path_advances_one_act_at_a_time:
  "(currentState (run cs newEngine) = Some st \<longrightarrow>
      hd (actPath (episode st)) = Act1
      \<and> successively (\<lambda>a b. act_num b = Suc (act_num a)) (actPath (episode st))
      \<and> sorted (map act_num (actPath (episode st))))
   \<and> (fst (tick g e) = Inr r \<longrightarrow>
        (\<forall>t\<in>set (transitions r). act_num (to_act t) = Suc (act_num (from_act t))))"
proof -
  have "engine_ok (run cs newEngine)" by (rule run_ok[OF newEngine_ok])
  then have a: "currentState (run cs newEngine) = Some st \<Longrightarrow> path_ok (actPath (episode st))"
    by (simp add: engine_ok_def)
  have b: "fst (tick g e) = Inr r \<Longrightarrow>
        (\<forall>t\<in>set (transitions r). act_num (to_act t) = Suc (act_num (from_act t)))"
  proof -
    assume "fst (tick g e) = Inr r"
    from tick_transitions[OF this] obtain fls a where
      "transitions r = loop_transitions (tick_lines fls a)" "loop_transitions a = []" by blast
    then show ?thesis using tick_lines_transitions_step[of a fls] by simp
  qed
  from a b show ?thesis by (auto simp: path_ok_def successively_sorted)
qed

text \<open>Claim C5 at a concrete input.\<close>

theorem act_path_advances_one_act_at_a_time_witness:
  "currentState (run [CallStart example_seed, CallTick (Some warm_lines),
                      CallTick (Some spark_lines)] newEngine) = Some spark_state
   \<and> actPath (episode spark_state) = [Act1, Act2, Act3]
   \<and> successively (\<lambda>a b. act_num b = Suc (act_num a)) (actPath (episode spark_state))
   \<and> sorted (map act_num (actPath (episode spark_state)))
   \<and> fst (tick (Some spark_lines) warm_engine) = Inr spark_result
   \<and> list_all (\<lambda>t. act_num (to_act t) = Suc (act_num (from_act t))) (transitions spark_result)"
proof -
  have r: "currentState (run [CallStart example_seed, CallTick (Some warm_lines),
                         CallTick (Some spark_lines)] newEngine) = Some spark_state"
    by (simp only: example_run) (simp add: spark_engine_def)
  have t: "fst (tick (Some spark_lines) warm_engine) = Inr spark_result"
    by (simp add: example_spark_tick)
  have p: "actPath (episode spark_state) = [Act1, Act2, Act3]"
    by (simp add: spark_state_def)
  from act_path_advances_one_act_at_a_time[of "[CallStart example_seed, CallTick (Some warm_lines), CallTick (Some spark_lines)]"
          spark_state "Some spark_lines" warm_engine spark_result] r t p
  show ?thesis by (simp add: list_all_iff)
qed

text \<open>
  Claim C6.  In act 1 the checkpoint detector fires exactly when the spotlighted pair has
  attraction at least 0.4 and there is an open callback or a recent line with a trust
  delta above 0.05.  When the two do not both hold once a line is processed, that line
  leaves the act path as it is; when they do, it appends act 2.
\<close>

theorem mutual_spark_needs_both_conditions:
  assumes "getCurrentAct st = Some Act1"
  shows "(checkActAdvancement st \<noteq> None \<longleftrightarrow> mutual_spark_ready st)
       \<and> (\<not> mutual_spark_ready (line_state fl st) \<longrightarrow>
            actPath (episode (loop_state (tick_line fl (a\<lparr>loop_state := st\<rparr>))))
              = actPath (episode st))
       \<and> (mutual_spark_ready (line_state fl st) \<longrightarrow>
            actPath (episode (loop_state (tick_line fl (a\<lparr>loop_state := st\<rparr>))))
              = actPath (episode st) @ [Act2])"
  using assms by (simp add: check_act1 tick_line_state)

text \<open>Claim C6 at a concrete input.\<close>

theorem mutual_spark_needs_both_conditions_witness:
  "getCurrentAct lonely_spark_state = Some Act1
   \<and> \<not> mutual_spark_ready lonely_spark_state
   \<and> checkActAdvancement lonely_spark_state = None
   \<and> mutual_spark_ready (lonely_spark_state\<lparr>callbacks := [''shared moment'']\<rparr>)
   \<and> checkActAdvancement (lonely_spark_state\<lparr>callbacks := [''shared moment'']\<rparr>) \<noteq> None"
proof -
  have a: "getCurrentAct lonely_spark_state = Some Act1"
    "getCurrentAct (lonely_spark_state\<lparr>callbacks := [''shared moment'']\<rparr>) = Some Act1"
    by (simp_all add: lonely_spark_state_def example_state_def getCurrentAct_def last_act_def)
  have b: "\<not> mutual_spark_ready lonely_spark_state"
    by (simp add: mutual_spark_ready_def lonely_spark_state_def example_state_def pairKeyOf_def
          finite_chem_def)
  have c: "mutual_spark_ready (lonely_spark_state\<lparr>callbacks := [''shared moment'']\<rparr>)"
    by (simp add: mutual_spark_ready_def lonely_spark_state_def example_state_def pairKeyOf_def
          finite_chem_def)
  from mutual_spark_needs_both_conditions[OF a(1)] mutual_spark_needs_both_conditions[OF a(2)] a b c show ?thesis by simp
qed

text \<open>
  Claim C7, as stated, fails: \<open>startEpisode\<close> has no check on the number of characters.
  With an empty character list it returns a summary, with an empty love graph and an
  undefined spotlight.
\<close>

theorem startEpisode_accepts_empty_cast:
  "fst (startEpisode (example_seed\<lparr>characters := []\<rparr>) newEngine)
     = Inr \<lparr>sum_act = Some Act1, sum_scene = 0, sum_spotlight = (None, None),
            sum_openLoops = [], lastLines = [], loveGraphSnapshot = []\<rparr>"
  by (simp add: startEpisode_def Let_def example_seed_def newEngine_def buildEpisodeSummary_def
        nth_opt_def truthy_def getCurrentAct_def last_act_def slice_last_def)

text \<open>
  Claim C7, amended.  \<open>startEpisode\<close> never fails: for every seed it installs an episode
  and returns its summary, in act 1 and scene 0, with the first two characters (or
  \<open>undefined\<close>) as spotlight; with fewer than two characters the love graph is empty and
  the second spotlight entry is undefined.
\<close>

theorem startEpisode_never_fails:
  "\<exists>summary st. startEpisode seed e = (Inr summary, e\<lparr>currentState := Some st, exchangeCounter := 0\<rparr>)
      \<and> sum_act summary = Some Act1 \<and> sum_scene summary = 0
      \<and> sum_spotlight summary = (nth_opt (characters seed) 0, nth_opt (characters seed) 1)
      \<and> (length (characters seed) < 2 \<longrightarrow> loveGraphSnapshot summary = [] \<and> snd (sum_spotlight summary) = None)"
proof -
  have "length cs < 2 \<Longrightarrow> init_graph cs [] = []" for cs
    by (cases cs; cases "tl cs") auto
  then show ?thesis
    by (auto simp: startEpisode_def Let_def buildEpisodeSummary_def getCurrentAct_def last_act_def
        importSeedContext_def nth_opt_def split: option.splits)
qed

text \<open>The amended claim C7 at a one-character seed.\<close>

theorem startEpisode_never_fails_witness:
  "length (characters (example_seed\<lparr>characters := [''emma'']\<rparr>)) < 2
   \<and> (\<exists>summary st. startEpisode (example_seed\<lparr>characters := [''emma'']\<rparr>) newEngine
          = (Inr summary, newEngine\<lparr>currentState := Some st, exchangeCounter := 0\<rparr>)
        \<and> sum_act summary = Some Act1 \<and> sum_scene summary = 0
        \<and> sum_spotlight summary = (Some ''emma'', None)
        \<and> loveGraphSnapshot summary = [])"
  using startEpisode_never_fails[of "example_seed\<lparr>characters := [''emma'']\<rparr>" newEngine]
  by (auto simp: nth_opt_def)

text \<open>
  Claim C8.  For a tracked pair other than the spotlighted one, with dimensions in the unit
  interval: when the primary delta has a positive attraction or comfort component, the
  pair's attraction and comfort move by a tenth of the respective component (then
  clamped); otherwise both keep their values; and a component that is not positive never
  raises its dimension.
\<close>

theorem compersion_ripple:
  assumes "map_of (loveGraph (episode st)) k = Some pair" and "k \<noteq> primaryPairKey"
    and "unit_pair pair"
  shows "\<exists>pair'. map_of (loveGraph (episode (applyRippleEffects line primaryPairKey st))) k = Some pair'
      \<and> (jgt (attraction (deltas line)) (Fin 0) \<or> jgt (comfort (deltas line)) (Fin 0) \<longrightarrow>
           attraction pair'
             = clamp01 (jadd (attraction pair) (jmul (attraction (deltas line)) (Fin 0.1)))
         \<and> comfort pair'
             = clamp01 (jadd (comfort pair) (jmul (comfort (deltas line)) (Fin 0.1))))
      \<and> (\<not> (jgt (attraction (deltas line)) (Fin 0) \<or> jgt (comfort (deltas line)) (Fin 0)) \<longrightarrow>
           attraction pair' = attraction pair \<and> comfort pair' = comfort pair)
      \<and> (jle (attraction (deltas line)) (Fin 0) \<longrightarrow> jle (attraction pair') (attraction pair))
      \<and> (jle (comfort (deltas line)) (Fin 0) \<longrightarrow> jle (comfort pair') (comfort pair))"
proof -
  from unit_pair_Fin[OF assms(3)] obtain a t te c where
    p: "pair = \<lparr>attraction = Fin a, trust = Fin t, tension = Fin te, comfort = Fin c\<rparr>" by blast
  from assms(3) p have u: "0 \<le> a" "a \<le> 1" "0 \<le> c" "c \<le> 1"
    by (auto simp: unit_pair_def unit_num_def)
  have m: "map_of (loveGraph (episode (applyRippleEffects line primaryPairKey st))) k
             = Some (ripple_pair (deltas line) pair)"
    using assms(1,2) by (simp add: applyRippleEffects_def map_of_ripple)
  have da: "jle (attraction (deltas line)) (Fin 0) \<Longrightarrow>
      jle (clamp01 (jadd (Fin a) (jmul (attraction (deltas line)) (Fin 0.1)))) (Fin a)"
    using u by (cases "attraction (deltas line)") (auto simp: clamp01_def)
  have dc: "jle (comfort (deltas line)) (Fin 0) \<Longrightarrow>
      jle (clamp01 (jadd (Fin c) (jmul (comfort (deltas line)) (Fin 0.1)))) (Fin c)"
    using u by (cases "comfort (deltas line)") (auto simp: clamp01_def)
  have ca: "clamp01 (Fin a) = Fin a" and cc: "clamp01 (Fin c) = Fin c"
    using u by (simp_all add: clamp01_def)
  have r: "attraction (ripple_pair (deltas line) pair)
             = (if jgt (attraction (deltas line)) (Fin 0) \<or> jgt (comfort (deltas line)) (Fin 0)
                then clamp01 (jadd (Fin a) (jmul (attraction (deltas line)) (Fin 0.1)))
                else Fin a)"
    "comfort (ripple_pair (deltas line) pair)
             = (if jgt (attraction (deltas line)) (Fin 0) \<or> jgt (comfort (deltas line)) (Fin 0)
                then clamp01 (jadd (Fin c) (jmul (comfort (deltas line)) (Fin 0.1)))
                else Fin c)"
    using ca cc by (simp_all add: ripple_pair_def Let_def clamp_pair_def p)
  have rf: "jle (Fin a) (Fin a)" "jle (Fin c) (Fin c)" by simp_all
  show ?thesis
    using m r da dc u rf
    apply (intro exI[of _ "ripple_pair (deltas line) pair"])
    apply (simp only: p Chem.simps)
    apply (auto simp del: jle.simps jgt.simps)
    done
qed

text \<open>Claim C8 at a concrete input.\<close>

theorem compersion_ripple_witness:
  "map_of (loveGraph (episode watcher_state)) ''emma-noah'' = Some initialPair
   \<and> unit_pair initialPair
   \<and> (\<exists>pair'. map_of (loveGraph (episode (applyRippleEffects
                   (example_spoken ''emma'' 0.1 0 0 (- 0.05)) ''emma-jake'' watcher_state)))
                 ''emma-noah'' = Some pair'
         \<and> attraction pair' = Fin 0.11 \<and> comfort pair' = Fin 0.095)"
proof -
  have a: "map_of (loveGraph (episode watcher_state)) ''emma-noah'' = Some initialPair"
    by (simp add: watcher_state_def example_state_def)
  have b: "''emma-noah'' \<noteq> ''emma-jake''" by simp
  have c: "unit_pair initialPair" by (rule unit_initialPair)
  from compersion_ripple[OF a b c, of "example_spoken ''emma'' 0.1 0 0 (- 0.05)"] a c show ?thesis
    by (auto simp: example_spoken_def finite_chem_def initialPair_def clamp01_def)
qed

text \<open>
  Claim C9, as stated, fails: nothing stops the loop after a transition.  After one
  exchange of two warm lines, a tick whose first line completes the 1\<rightarrow>2 checkpoint and
  whose second line meets the 2\<rightarrow>3 checkpoint reports two transitions.
\<close>

theorem two_transitions_in_one_tick:
  "fst (tick (Some spark_lines)
         (run [CallStart example_seed, CallTick (Some warm_lines)] newEngine)) = Inr spark_result
   \<and> transitions spark_result =
       [\<lparr>from_act = Act1, from_scene = 0, to_act = Act2, to_scene = 1, reason = EndCheckpoint\<rparr>,
        \<lparr>from_act = Act2, from_scene = 1, to_act = Act3, to_scene = 2, reason = EndCheckpoint\<rparr>]
   \<and> length (transitions spark_result) = 2"
  by (simp only: example_warm_run example_spark_tick)
     (simp add: spark_result_def spark_transitions_def)

text \<open>
  Claim C9, amended.  The detector runs once per produced line and takes at most one
  transition each time: a tick reports at most as many transitions as lines it produced,
  each of them from an act to the next.
\<close>

theorem transitions_at_most_one_per_line:
  assumes "fst (tick g e) = Inr r"
  shows "length (transitions r) \<le> length (producedLines r)
       \<and> list_all (\<lambda>t. act_num (to_act t) = Suc (act_num (from_act t))) (transitions r)"
proof -
  from tick_transitions[OF assms] obtain fls a where
    h: "transitions r = loop_transitions (tick_lines fls a)"
       "producedLines r = loop_lines (tick_lines fls a)"
       "loop_transitions a = []" "loop_lines a = []" by blast
  have "length (transitions r) \<le> length (producedLines r)"
    using tick_lines_transitions_length[of fls a] tick_lines_lines_length[of fls a] h by simp
  moreover have "list_all (\<lambda>t. act_num (to_act t) = Suc (act_num (from_act t))) (transitions r)"
    using tick_lines_transitions_step[of a fls] h by (simp add: list_all_iff)
  ultimately show ?thesis by simp
qed

text \<open>The amended claim C9 at the tick of the counterexample.\<close>

theorem transitions_at_most_one_per_line_witness:
  "fst (tick (Some spark_lines) warm_engine) = Inr spark_result
   \<and> length (producedLines spark_result) = 2
   \<and> length (transitions spark_result) \<le> length (producedLines spark_result)"
proof -
  have t: "fst (tick (Some spark_lines) warm_engine) = Inr spark_result"
    by (simp add: example_spark_tick)
  from transitions_at_most_one_per_line[OF t] t show ?thesis by (simp add: spark_result_def)
qed

text \<open>
  Claim C10.  In a freshly started episode every major nudge submitted before 6 ticks
  returns false, whatever other calls were made: the last-major index starts at 0 as if a
  major nudge had been accepted at exchange 0.
\<close>

theorem fresh_episode_rejects_major_nudges:
  assumes "\<forall>c\<in>set cs. \<not> is_start c" and "ticks cs < 6" and "intensity n = Major"
  shows "fst (applyNudge isSafe n (run cs (snd (startEpisode seed e)))) = Inr False"
proof -
  let ?e0 = "snd (startEpisode seed e)"
  from startEpisode_state[of seed e] obtain st0 where
    st0: "currentState ?e0 = Some st0" "exchangeCounter ?e0 = 0"
      "lastMajorNudgeExchange st0 = 0" "actPath (episode st0) = [Act1]" by blast
  from run_active[OF st0(1) assms(1)] st0 obtain st1 where
    st1: "currentState (run cs ?e0) = Some st1"
      "exchangeCounter (run cs ?e0) = int (ticks cs)"
      "0 \<le> lastMajorNudgeExchange st1" "actPath (episode st1) \<noteq> []" by auto
  show ?thesis
    using applyNudge_major_cooldown[OF st1(1) st1(4) assms(3), of isSafe] st1(2,3) assms(2)
    by simp
qed

text \<open>Claim C10 at a concrete input.\<close>

theorem fresh_episode_rejects_major_nudges_witness:
  "ticks [CallTick (Some warm_lines), CallNudge (Some True) example_major, CallTick None] = 2
   \<and> intensity example_major = Major
   \<and> fst (applyNudge (Some True) example_major
        (run [CallTick (Some warm_lines), CallNudge (Some True) example_major, CallTick None]
           (snd (startEpisode example_seed newEngine)))) = Inr False"
proof -
  let ?cs = "[CallTick (Some warm_lines), CallNudge (Some True) example_major, CallTick None]"
  have a: "\<forall>c\<in>set ?cs. \<not> is_start c" by simp
  have t: "ticks ?cs = 2" by (simp add: ticks_def)
  have b: "intensity example_major = Major" by (simp add: example_major_def)
  from fresh_episode_rejects_major_nudges[OF a _ b, of "Some True" example_seed newEngine] t b show ?thesis by simp
qed

end
